theory Spec2Isabelle
  imports Main
begin

section \<open>The relational store\<close>

text \<open>
  The bot keeps everything in SQLite tables whose primary key is
  \<^verbatim>\<open>INTEGER PRIMARY KEY AUTOINCREMENT\<close>. A table is modelled as the list of its rows
  (row id paired with the remaining columns) together with the largest row id the table has
  ever handed out (SQLite's \<^verbatim>\<open>sqlite_sequence\<close> entry). Identifiers are Python/SQLite
  integers, hence \<open>int\<close>. Instants are microseconds on the UTC time line; the
  \<^verbatim>\<open>created_at\<close>-style text columns, which the program writes with
  \<^verbatim>\<open>datetime.now(timezone.utc).isoformat()\<close> and never reads back, hold the instant itself.
\<close>

type_synonym time = int

record 'r table =
  rows :: "(int \<times> 'r) list"
  seq :: int

definition empty_table :: "'r table" where
  "empty_table = \<lparr>rows = [], seq = 0\<rparr>"

definition next_id :: "'r table \<Rightarrow> int" where
  "next_id t = fold max (map fst (rows t)) (seq t) + 1"

text \<open>\<^verbatim>\<open>INSERT\<close> without an explicit id; the first component is \<^verbatim>\<open>cur.lastrowid\<close>.\<close>

definition insert_row :: "'r \<Rightarrow> 'r table \<Rightarrow> int \<times> 'r table" where
  "insert_row r t = (let i = next_id t in (i, \<lparr>rows = rows t @ [(i, r)], seq = i\<rparr>))"

text \<open>\<^verbatim>\<open>SELECT ... WHERE\<close> keeps the stored order; \<^verbatim>\<open>ORDER BY id\<close> sorts on the row id.\<close>

definition select_where :: "(int \<Rightarrow> 'r \<Rightarrow> bool) \<Rightarrow> 'r table \<Rightarrow> (int \<times> 'r) list" where
  "select_where P t = filter (\<lambda>(i, r). P i r) (rows t)"

definition order_by_id :: "(int \<times> 'r) list \<Rightarrow> (int \<times> 'r) list" where
  "order_by_id xs = sort_key fst xs"

definition fetchone :: "'a list \<Rightarrow> 'a option" where
  "fetchone xs = (case xs of [] \<Rightarrow> None | x # _ \<Rightarrow> Some x)"

definition update_where :: "(int \<Rightarrow> 'r \<Rightarrow> bool) \<Rightarrow> ('r \<Rightarrow> 'r) \<Rightarrow> 'r table \<Rightarrow> 'r table" where
  "update_where P f t = t\<lparr>rows := map (\<lambda>(i, r). if P i r then (i, f r) else (i, r)) (rows t)\<rparr>"

subsection \<open>Rows\<close>

record quiz_row =
  qz_title :: string
  qz_created_by :: int
  qz_created_at :: time
  qz_is_archived :: int

text \<open>The last three columns are the legacy media columns added by \<^verbatim>\<open>_ensure_schema\<close>.\<close>

record question_row =
  q_quiz_id :: int
  q_text :: string
  q_created_at :: time
  q_media_bundle_id :: "int option"
  q_photo :: "string option"
  q_audio :: "string option"
  q_audio_is_voice :: "int option"

record option_row =
  o_question_id :: int
  o_option_index :: int
  o_text :: string
  o_is_correct :: int

record response_row =
  r_chat_id :: int
  r_user_id :: int
  r_question_id :: int
  r_option_index :: int
  r_is_correct :: int
  r_answered_at :: time

record progress_row =
  up_origin_chat_id :: int
  up_user_id :: int
  up_quiz_id :: int
  up_q_pos :: int
  up_started_at :: time
  up_finished_at :: "time option"

record sent_row =
  sm_chat_id :: int
  sm_quiz_id :: int
  sm_message_id :: int
  sm_expires_at :: "string option"

record participant_row =
  pn_origin_chat_id :: int
  pn_user_id :: int
  pn_quiz_id :: int
  pn_name :: string

text \<open>
  \<^verbatim>\<open>question_attachments\<close> and \<^verbatim>\<open>media_bundle_attachments\<close> have the same columns; the
  owner is the \<^verbatim>\<open>question_id\<close>, respectively the \<^verbatim>\<open>bundle_id\<close>.
\<close>

record att_row =
  a_owner :: int
  a_kind :: string
  a_file_id :: string
  a_position :: int

record bundle_row =
  mb_quiz_id :: int
  mb_created_at :: time

subsection \<open>What the handlers emit\<close>

text \<open>
  Messages are kept by their content rather than by their rendered (Arabic) wording. Each
  entry of the journal is one call into the transport, one statement that stamps
  \<^verbatim>\<open>finished_at\<close>, or an exception that left the handler. \<open>Feedback\<close> holds what the
  acknowledgement is composed from (correctness, the excerpt of the question, the text of
  the correct option, the text of the submitted one); the source renders these into one
  text and cuts it after 190 characters, which is not modelled, so nothing is stated about
  how much of the three texts the popup shows.
\<close>

datatype py_error = TypeError | IntegrityError

datatype send_method = SendMessage | SendPhoto | SendVoice | SendAudio | SendSticker | SendAnimation

datatype glyph = Circled int | Numbered int

datatype callback_data = StartData int | AnsData int int int

datatype label = BeginLabel | OptionLabel glyph string

type_synonym keyboard = "(label \<times> callback_data) list"

datatype content = HeadText string "string option" | PlainText string | Media string "string option"

datatype alert =
    WrongTarget
  | QuestionMissing
  | TimeUpBegin
  | TimeUpAnswer
  | Blank
  | GoodLuck
  | AlreadyAnswered
  | Feedback bool string "string option" "string option"
  | FinalPopup int nat
  | SameQuizzes

datatype origin = HeadUnit int | BundleUnit int | QuestionUnit int

datatype effect =
    CbAnswer int int alert
  | NamePrompt int int
  | Celebrate int send_method string
  | WroteFinished int int int time
  | FinalResult int int int string int nat
  | Broadcast origin send_method int content "keyboard option" "int option"
  | InvalidQuizReport int
  | MergedReport int
  | Unhandled py_error

record state =
  quizzes :: "quiz_row table"
  questions :: "question_row table"
  options :: "option_row table"
  responses :: "response_row table"
  user_progress :: "progress_row table"
  sent_msgs :: "sent_row table"
  participant_names :: "participant_row table"
  question_attachments :: "att_row table"
  media_bundles :: "bundle_row table"
  media_bundle_attachments :: "att_row table"
  pending_names :: "(int \<times> int \<times> int) list"
  journal :: "effect list"
  calls :: nat

text \<open>The persistent part of the state: the ten tables.\<close>

definition store_of :: "state \<Rightarrow> state" where
  "store_of st = st\<lparr>pending_names := [], journal := [], calls := 0\<rparr>"

definition emit :: "effect \<Rightarrow> state \<Rightarrow> state" where
  "emit e st = st\<lparr>journal := journal st @ [e]\<rparr>"

record config =
  OWNER_ID :: int
  CORRECT_STICKER_ID :: string
  WRONG_STICKER_ID :: string
  CORRECT_ANIM_ID :: string
  WRONG_ANIM_ID :: string

section \<open>Session expiry\<close>

text \<open>
  \<^verbatim>\<open>datetime.fromisoformat\<close> belongs to the Python library; it is a parameter of the model.
  It either raises (\<open>ValueError\<close>), or yields a datetime without offset (\<open>Naive\<close>), which
  Python refuses to compare with the aware \<^verbatim>\<open>_now_utc()\<close>, or an instant.
\<close>

datatype parsed = ValueError | Naive time | Aware time

definition quiz_expired ::
  "(string \<Rightarrow> parsed) \<Rightarrow> time \<Rightarrow> int \<Rightarrow> int \<Rightarrow> state \<Rightarrow> py_error + bool option" where
  "quiz_expired fromisoformat now chat_id quiz_id st =
     (case fetchone (rev (order_by_id (select_where
              (\<lambda>i r. sm_chat_id r = chat_id \<and> sm_quiz_id r = quiz_id \<and> sm_expires_at r \<noteq> None)
              (sent_msgs st)))) of
        None \<Rightarrow> Inr None
      | Some (i, row) \<Rightarrow>
          (case sm_expires_at row of
             None \<Rightarrow> Inr None
           | Some s \<Rightarrow>
               if s = [] then Inr None
               else (case fromisoformat s of
                       ValueError \<Rightarrow> Inr None
                     | Naive e \<Rightarrow> Inl TypeError
                     | Aware e \<Rightarrow> Inr (Some (now > e)))))"

section \<open>Begin and answer events\<close>

definition has_name :: "int \<Rightarrow> int \<Rightarrow> int \<Rightarrow> state \<Rightarrow> bool" where
  "has_name chat_id user_id quiz_id st =
     (select_where (\<lambda>i r. pn_origin_chat_id r = chat_id \<and> pn_user_id r = user_id \<and> pn_quiz_id r = quiz_id)
        (participant_names st) \<noteq> [])"

text \<open>\<^verbatim>\<open>pending_names[key] = True\<close> on a dict that only ever holds \<^verbatim>\<open>True\<close>.\<close>

definition set_pending :: "int \<times> int \<times> int \<Rightarrow> state \<Rightarrow> state" where
  "set_pending k st =
     (if k \<in> set (pending_names st) then st else st\<lparr>pending_names := pending_names st @ [k]\<rparr>)"

definition cb_start_quiz :: "(string \<Rightarrow> parsed) \<Rightarrow> time \<Rightarrow> int \<Rightarrow> int \<Rightarrow> int \<Rightarrow> state \<Rightarrow> state" where
  "cb_start_quiz fromisoformat now chat_id user_id quiz_id st =
     (case quiz_expired fromisoformat now chat_id quiz_id st of
        Inl err \<Rightarrow> emit (Unhandled err) st
      | Inr expired \<Rightarrow>
          if expired = Some True then emit (CbAnswer chat_id user_id TimeUpBegin) st
          else if \<not> has_name chat_id user_id quiz_id st then
            emit (NamePrompt chat_id user_id)
              (emit (CbAnswer chat_id user_id Blank) (set_pending (chat_id, user_id, quiz_id) st))
          else emit (CbAnswer chat_id user_id GoodLuck) st)"

text \<open>An answer control's callback data \<^verbatim>\<open>ans:<question>:<option>:<target>\<close>, already split.\<close>

record answer_event =
  ev_chat :: int
  ev_user :: int
  ev_question :: int
  ev_option :: int
  ev_target :: int

definition get_quiz_question_ids :: "int \<Rightarrow> state \<Rightarrow> int list" where
  "get_quiz_question_ids quiz_id st =
     map fst (order_by_id (select_where (\<lambda>i r. q_quiz_id r = quiz_id) (questions st)))"

definition celebrate :: "config \<Rightarrow> int \<Rightarrow> bool \<Rightarrow> state \<Rightarrow> state" where
  "celebrate cfg chat_id is_correct st =
     (if is_correct \<and> CORRECT_STICKER_ID cfg \<noteq> [] then
        emit (Celebrate chat_id SendSticker (CORRECT_STICKER_ID cfg)) st
      else if \<not> is_correct \<and> WRONG_STICKER_ID cfg \<noteq> [] then
        emit (Celebrate chat_id SendSticker (WRONG_STICKER_ID cfg)) st
      else if is_correct \<and> CORRECT_ANIM_ID cfg \<noteq> [] then
        emit (Celebrate chat_id SendAnimation (CORRECT_ANIM_ID cfg)) st
      else if \<not> is_correct \<and> WRONG_ANIM_ID cfg \<noteq> [] then
        emit (Celebrate chat_id SendAnimation (WRONG_ANIM_ID cfg)) st
      else st)"

text \<open>The responses of one user in one channel to the questions \<open>q_ids\<close>.\<close>

definition responses_in :: "int \<Rightarrow> int \<Rightarrow> int list \<Rightarrow> state \<Rightarrow> (int \<times> response_row) list" where
  "responses_in chat_id user_id q_ids st =
     select_where (\<lambda>i r. r_chat_id r = chat_id \<and> r_user_id r = user_id \<and> r_question_id r \<in> set q_ids)
       (responses st)"

definition answered_cnt :: "int \<Rightarrow> int \<Rightarrow> int list \<Rightarrow> state \<Rightarrow> nat" where
  "answered_cnt chat_id user_id q_ids st =
     length (remdups (map (\<lambda>(i, r). r_question_id r) (responses_in chat_id user_id q_ids st)))"

definition score_sum :: "int \<Rightarrow> int \<Rightarrow> int list \<Rightarrow> state \<Rightarrow> int" where
  "score_sum chat_id user_id q_ids st =
     sum_list (map (\<lambda>(i, r). r_is_correct r) (responses_in chat_id user_id q_ids st))"

definition write_finished :: "time \<Rightarrow> int \<Rightarrow> int \<Rightarrow> int \<Rightarrow> state \<Rightarrow> state" where
  "write_finished now chat_id user_id quiz_id st =
     (let mine = (\<lambda>i r. up_origin_chat_id r = chat_id \<and> up_user_id r = user_id \<and> up_quiz_id r = quiz_id)
      in emit (WroteFinished chat_id user_id quiz_id now)
           (if select_where mine (user_progress st) \<noteq> [] then
              st\<lparr>user_progress := update_where mine (\<lambda>r. r\<lparr>up_finished_at := Some now\<rparr>) (user_progress st)\<rparr>
            else
              st\<lparr>user_progress := snd (insert_row
                    \<lparr>up_origin_chat_id = chat_id, up_user_id = user_id, up_quiz_id = quiz_id,
                     up_q_pos = 0, up_started_at = now, up_finished_at = Some now\<rparr>
                    (user_progress st))\<rparr>))"

text \<open>The tail of \<^verbatim>\<open>on_answer\<close>, from the comment \<^verbatim>\<open># check finish\<close> on.\<close>

definition check_finish :: "time \<Rightarrow> int \<Rightarrow> int \<Rightarrow> int \<Rightarrow> state \<Rightarrow> state" where
  "check_finish now chat_id user_id quiz_id st =
     (let q_ids = get_quiz_question_ids quiz_id st in
      if answered_cnt chat_id user_id q_ids st = length q_ids then
        (let total = score_sum chat_id user_id q_ids st;
             st1 = write_finished now chat_id user_id quiz_id st;
             st2 = emit (CbAnswer chat_id user_id (FinalPopup total (length q_ids))) st1;
             name = (case fetchone (select_where
                       (\<lambda>i r. pn_origin_chat_id r = chat_id \<and> pn_user_id r = user_id \<and> pn_quiz_id r = quiz_id)
                       (participant_names st2)) of
                       None \<Rightarrow> [] | Some (i, r) \<Rightarrow> pn_name r)
         in emit (FinalResult chat_id user_id quiz_id name total (length q_ids)) st2)
      else st)"

text \<open>
  \<^verbatim>\<open>INSERT INTO responses\<close> under \<^verbatim>\<open>UNIQUE(chat_id, user_id, question_id)\<close>: a second row
  for the same triple is refused with an \<^verbatim>\<open>IntegrityError\<close>.
\<close>

definition insert_response :: "response_row \<Rightarrow> state \<Rightarrow> py_error + state" where
  "insert_response r st =
     (if select_where (\<lambda>i r'. r_chat_id r' = r_chat_id r \<and> r_user_id r' = r_user_id r
                              \<and> r_question_id r' = r_question_id r) (responses st) \<noteq> []
      then Inl IntegrityError
      else Inr (st\<lparr>responses := snd (insert_row r (responses st))\<rparr>))"

text \<open>The part of \<^verbatim>\<open>on_answer\<close> that grades and stores a fresh answer.\<close>

definition record_answer ::
  "config \<Rightarrow> time \<Rightarrow> answer_event \<Rightarrow> int \<Rightarrow> string \<Rightarrow> state \<Rightarrow> state" where
  "record_answer cfg now ev quiz_id qtext st =
     (let opt = fetchone (select_where
                  (\<lambda>i r. o_question_id r = ev_question ev \<and> o_option_index r = ev_option ev) (options st));
          all_opts = sort_key (\<lambda>(i, r). o_option_index r)
                       (select_where (\<lambda>i r. o_question_id r = ev_question ev) (options st));
          is_correct = (case opt of None \<Rightarrow> 0 | Some (i, r) \<Rightarrow> if o_is_correct r = 1 then 1 else 0)
      in case insert_response
                \<lparr>r_chat_id = ev_chat ev, r_user_id = ev_user ev, r_question_id = ev_question ev,
                 r_option_index = ev_option ev, r_is_correct = is_correct, r_answered_at = now\<rparr> st of
           Inl err \<Rightarrow> emit (Unhandled err) st
         | Inr st1 \<Rightarrow>
             (let your_text = map_option (\<lambda>(i, r). o_text r) opt;
                  correct_text = map_option (\<lambda>(i, r). o_text r)
                                   (fetchone (filter (\<lambda>(i, r). o_is_correct r = 1) all_opts));
                  st2 = emit (CbAnswer (ev_chat ev) (ev_user ev)
                                (Feedback (is_correct = 1) (take 80 qtext) correct_text your_text)) st1;
                  st3 = celebrate cfg (ev_chat ev) (is_correct = 1) st2
              in check_finish now (ev_chat ev) (ev_user ev) quiz_id st3))"

definition on_answer ::
  "config \<Rightarrow> (string \<Rightarrow> parsed) \<Rightarrow> time \<Rightarrow> answer_event \<Rightarrow> state \<Rightarrow> state" where
  "on_answer cfg fromisoformat now ev st =
     (let user_id = ev_user ev; chat_id = ev_chat ev in
      if ev_target ev \<noteq> 0 \<and> user_id \<noteq> ev_target ev then emit (CbAnswer chat_id user_id WrongTarget) st
      else case fetchone (select_where (\<lambda>i r. i = ev_question ev) (questions st)) of
        None \<Rightarrow> emit (CbAnswer chat_id user_id QuestionMissing) st
      | Some (qid, qrow) \<Rightarrow>
          (let quiz_id = q_quiz_id qrow in
           case quiz_expired fromisoformat now chat_id quiz_id st of
             Inl err \<Rightarrow> emit (Unhandled err) st
           | Inr expired \<Rightarrow>
               if expired = Some True then emit (CbAnswer chat_id user_id TimeUpAnswer) st
               else if \<not> has_name chat_id user_id quiz_id st then
                 emit (CbAnswer chat_id user_id Blank)
                   (emit (NamePrompt chat_id user_id) (set_pending (chat_id, user_id, quiz_id) st))
               else if select_where (\<lambda>i r. r_chat_id r = chat_id \<and> r_user_id r = user_id
                                          \<and> r_question_id r = ev_question ev) (responses st) \<noteq> []
               then emit (CbAnswer chat_id user_id AlreadyAnswered) st
               else record_answer cfg now ev quiz_id (q_text qrow) st))"


text \<open>The dispatcher hands the answer events to \<^verbatim>\<open>on_answer\<close> one after the other.\<close>

fun answer_all ::
  "config \<Rightarrow> (string \<Rightarrow> parsed) \<Rightarrow> (time \<times> answer_event) list \<Rightarrow> state \<Rightarrow> state" where
  "answer_all cfg fromisoformat [] st = st"
| "answer_all cfg fromisoformat ((now, ev) # evs) st =
     answer_all cfg fromisoformat evs (on_answer cfg fromisoformat now ev st)"

section \<open>Publishing\<close>

text \<open>\<^verbatim>\<open>INSERT INTO sent_msgs(chat_id, quiz_id, message_id, expires_at)\<close>.\<close>

definition record_sent :: "int \<Rightarrow> int \<Rightarrow> int \<Rightarrow> string option \<Rightarrow> state \<Rightarrow> state" where
  "record_sent chat_id quiz_id message_id expires_at st =
     st\<lparr>sent_msgs := snd (insert_row
           \<lparr>sm_chat_id = chat_id, sm_quiz_id = quiz_id, sm_message_id = message_id,
            sm_expires_at = expires_at\<rparr> (sent_msgs st))\<rparr>"

text \<open>
  What the transport answers to one call of a send operation: the id of the message it
  delivered, \<^verbatim>\<open>TelegramRetryAfter\<close>, or any other exception. The transport is a parameter:
  its answer to the \<open>k\<close>-th call made so far. \<^verbatim>\<open>_safe_send\<close> calls the operation, once more
  after \<^verbatim>\<open>TelegramRetryAfter\<close>, and yields \<^verbatim>\<open>None\<close> when the unit was dropped. One journal
  entry is written per \<^verbatim>\<open>_safe_send\<close>, with the message id or \<open>None\<close>.
\<close>

datatype transport_reply = Delivered int | RetryAfter | Failure

definition safe_send ::
  "(nat \<Rightarrow> transport_reply) \<Rightarrow> (int option \<Rightarrow> effect) \<Rightarrow> state \<Rightarrow> int option \<times> state" where
  "safe_send transport unit st =
     (case transport (calls st) of
        Delivered m \<Rightarrow> (Some m, emit (unit (Some m)) (st\<lparr>calls := calls st + 1\<rparr>))
      | RetryAfter \<Rightarrow>
          (case transport (calls st + 1) of
             Delivered m \<Rightarrow> (Some m, emit (unit (Some m)) (st\<lparr>calls := calls st + 2\<rparr>))
           | RetryAfter \<Rightarrow> (None, emit (unit None) (st\<lparr>calls := calls st + 2\<rparr>))
           | Failure \<Rightarrow> (None, emit (unit None) (st\<lparr>calls := calls st + 2\<rparr>)))
      | Failure \<Rightarrow> (None, emit (unit None) (st\<lparr>calls := calls st + 1\<rparr>)))"

text \<open>A \<^verbatim>\<open>_safe_send\<close> followed by \<^verbatim>\<open>if m: INSERT INTO sent_msgs ...\<close>.\<close>

definition send_and_record ::
  "(nat \<Rightarrow> transport_reply) \<Rightarrow> int \<Rightarrow> int \<Rightarrow> string option \<Rightarrow> (int option \<Rightarrow> effect) \<Rightarrow> state \<Rightarrow> state" where
  "send_and_record transport chat_id quiz_id expires_at unit st =
     (case safe_send transport unit st of
        (Some m, st1) \<Rightarrow> record_sent chat_id quiz_id m expires_at st1
      | (None, st1) \<Rightarrow> st1)"

definition circ_num :: "int \<Rightarrow> glyph" where
  "circ_num idx = (if 0 \<le> idx \<and> idx < 10 then Circled (idx + 1) else Numbered (idx + 1))"

definition options_for_question :: "int \<Rightarrow> state \<Rightarrow> (int \<times> option_row) list" where
  "options_for_question question_id st =
     sort_key (\<lambda>(i, r). o_option_index r)
       (select_where (\<lambda>i r. o_question_id r = question_id) (options st))"

definition build_options_kb :: "int \<Rightarrow> int \<Rightarrow> state \<Rightarrow> keyboard" where
  "build_options_kb question_id target_user_id st =
     map (\<lambda>(i, r). (OptionLabel (circ_num (o_option_index r)) (o_text r),
                     AnsData question_id (o_option_index r) target_user_id))
       (options_for_question question_id st)"

definition get_question_atts :: "int \<Rightarrow> state \<Rightarrow> (int \<times> att_row) list" where
  "get_question_atts question_id st =
     sort_key (\<lambda>(i, r). a_position r)
       (select_where (\<lambda>i r. a_owner r = question_id) (question_attachments st))"

definition get_bundle_atts :: "int \<Rightarrow> state \<Rightarrow> (int \<times> att_row) list" where
  "get_bundle_atts bundle_id st =
     sort_key (\<lambda>(i, r). a_position r)
       (select_where (\<lambda>i r. a_owner r = bundle_id) (media_bundle_attachments st))"

definition att_method :: "string \<Rightarrow> send_method" where
  "att_method kind =
     (if kind = ''photo'' then SendPhoto else if kind = ''voice'' then SendVoice else SendAudio)"

text \<open>\<^verbatim>\<open>migrate_legacy_media\<close>, which \<^verbatim>\<open>_do_publish\<close> runs first.\<close>

definition migrate_row :: "int \<times> question_row \<Rightarrow> state \<Rightarrow> state" where
  "migrate_row qr st =
     (let qid = fst qr; r = snd qr in
      if select_where (\<lambda>i a. a_owner a = qid) (question_attachments st) \<noteq> [] then st
      else
        (let with_photo = (q_photo r \<noteq> None \<and> q_photo r \<noteq> Some []);
             st1 = (if with_photo then
                      st\<lparr>question_attachments := snd (insert_row
                            \<lparr>a_owner = qid, a_kind = ''photo'', a_file_id = the (q_photo r), a_position = 0\<rparr>
                            (question_attachments st))\<rparr>
                    else st);
             pos = (if with_photo then 1 else 0)
         in if q_audio r \<noteq> None \<and> q_audio r \<noteq> Some [] then
              st1\<lparr>question_attachments := snd (insert_row
                    \<lparr>a_owner = qid,
                     a_kind = (if q_audio_is_voice r = Some 1 then ''voice'' else ''audio''),
                     a_file_id = the (q_audio r), a_position = pos\<rparr>
                    (question_attachments st1))\<rparr>
            else st1))"

definition migrate_legacy_media :: "state \<Rightarrow> state" where
  "migrate_legacy_media st =
     fold migrate_row
       (select_where (\<lambda>i r. q_photo r \<noteq> None \<or> q_audio r \<noteq> None) (questions st)) st"

text \<open>The loop over a bundle's attachments.\<close>

fun send_bundle_atts ::
  "(nat \<Rightarrow> transport_reply) \<Rightarrow> int \<Rightarrow> int \<Rightarrow> string option \<Rightarrow> int \<Rightarrow> (int \<times> att_row) list
     \<Rightarrow> state \<Rightarrow> state" where
  "send_bundle_atts transport chat_id quiz_id expires_at bundle_id [] st = st"
| "send_bundle_atts transport chat_id quiz_id expires_at bundle_id (att # atts) st =
     send_bundle_atts transport chat_id quiz_id expires_at bundle_id atts
       (send_and_record transport chat_id quiz_id expires_at
          (Broadcast (BundleUnit bundle_id) (att_method (a_kind (snd att))) chat_id
             (Media (a_file_id (snd att)) None) None) st)"

text \<open>The loop over a question's own attachments; \<open>first\<close> is the flag of the source.\<close>

fun send_question_atts ::
  "(nat \<Rightarrow> transport_reply) \<Rightarrow> int \<Rightarrow> int \<Rightarrow> string option \<Rightarrow> int \<Rightarrow> string \<Rightarrow> keyboard \<Rightarrow> bool
     \<Rightarrow> (int \<times> att_row) list \<Rightarrow> state \<Rightarrow> state" where
  "send_question_atts transport chat_id quiz_id expires_at qid qtext kbq first [] st = st"
| "send_question_atts transport chat_id quiz_id expires_at qid qtext kbq first (att # atts) st =
     send_question_atts transport chat_id quiz_id expires_at qid qtext kbq False atts
       (send_and_record transport chat_id quiz_id expires_at
          (if first then
             Broadcast (QuestionUnit qid) (att_method (a_kind (snd att))) chat_id
               (Media (a_file_id (snd att)) (Some qtext)) (Some kbq)
           else
             Broadcast (QuestionUnit qid) (att_method (a_kind (snd att))) chat_id
               (Media (a_file_id (snd att)) None) None) st)"

text \<open>The loop \<^verbatim>\<open>for q in qs\<close> with its set \<^verbatim>\<open>sent_bundles\<close>.\<close>

fun publish_questions ::
  "(nat \<Rightarrow> transport_reply) \<Rightarrow> int \<Rightarrow> int \<Rightarrow> string option \<Rightarrow> int set
     \<Rightarrow> (int \<times> question_row) list \<Rightarrow> state \<Rightarrow> state" where
  "publish_questions transport chat_id quiz_id expires_at sent_bundles [] st = st"
| "publish_questions transport chat_id quiz_id expires_at sent_bundles (q # qs) st =
     (let qid = fst q; qtext = q_text (snd q); bundle_id = q_media_bundle_id (snd q);
          fresh = (bundle_id \<noteq> None \<and> bundle_id \<noteq> Some 0 \<and> the bundle_id \<notin> sent_bundles);
          st1 = (if fresh then
                   send_bundle_atts transport chat_id quiz_id expires_at (the bundle_id)
                     (get_bundle_atts (the bundle_id) st) st
                 else st);
          sent_bundles1 = (if fresh then insert (the bundle_id) sent_bundles else sent_bundles);
          kbq = build_options_kb qid 0 st1;
          atts_q = get_question_atts qid st1;
          st2 = (if atts_q \<noteq> [] then
                   send_question_atts transport chat_id quiz_id expires_at qid qtext kbq True atts_q st1
                 else
                   send_and_record transport chat_id quiz_id expires_at
                     (Broadcast (QuestionUnit qid) SendMessage chat_id (PlainText qtext) (Some kbq)) st1)
      in publish_questions transport chat_id quiz_id expires_at sent_bundles1 qs st2)"

definition do_publish ::
  "(nat \<Rightarrow> transport_reply) \<Rightarrow> int \<Rightarrow> int \<Rightarrow> string option \<Rightarrow> state \<Rightarrow> state" where
  "do_publish transport chat_id quiz_id expires_at st =
     (let st0 = migrate_legacy_media st;
          quiz = fetchone (select_where (\<lambda>i r. i = quiz_id \<and> qz_is_archived r = 0) (quizzes st0));
          qs = order_by_id (select_where (\<lambda>i r. q_quiz_id r = quiz_id) (questions st0))
      in case quiz of
           None \<Rightarrow> emit (InvalidQuizReport chat_id) st0
         | Some (i, qz) \<Rightarrow>
             if qs = [] then emit (InvalidQuizReport chat_id) st0
             else
               publish_questions transport chat_id quiz_id expires_at {} qs
                 (send_and_record transport chat_id quiz_id expires_at
                    (Broadcast (HeadUnit quiz_id) SendMessage chat_id
                       (HeadText (qz_title qz) (if expires_at = None \<or> expires_at = Some [] then None else expires_at))
                       (Some [(BeginLabel, StartData quiz_id)])) st0))"

section \<open>Merging two quizzes into a new one\<close>

definition copy_bundle ::
  "time \<Rightarrow> int \<Rightarrow> int \<Rightarrow> (int \<rightharpoonup> int) \<times> state \<Rightarrow> int \<times> (int \<rightharpoonup> int) \<times> state" where
  "copy_bundle now quiz_dst bundle_id ms =
     (let bundle_map = fst ms; st = snd ms in
      case bundle_map bundle_id of
        Some b \<Rightarrow> (b, bundle_map, st)
      | None \<Rightarrow>
          (let ins = insert_row \<lparr>mb_quiz_id = quiz_dst, mb_created_at = now\<rparr> (media_bundles st);
               new_b = fst ins;
               st1 = st\<lparr>media_bundles := snd ins\<rparr>;
               atts = get_bundle_atts bundle_id st1;
               st2 = fold (\<lambda>a s. s\<lparr>media_bundle_attachments := snd (insert_row
                              \<lparr>a_owner = new_b, a_kind = a_kind (snd a), a_file_id = a_file_id (snd a),
                               a_position = a_position (snd a)\<rparr> (media_bundle_attachments s))\<rparr>)
                       atts st1
           in (new_b, bundle_map(bundle_id \<mapsto> new_b), st2)))"

definition copy_question_to_quiz ::
  "time \<Rightarrow> int \<Rightarrow> int \<times> question_row \<Rightarrow> (int \<rightharpoonup> int) \<times> state \<Rightarrow> int \<times> (int \<rightharpoonup> int) \<times> state" where
  "copy_question_to_quiz now quiz_dst qrow ms =
     (let orig = q_media_bundle_id (snd qrow);
          copied = (if orig \<noteq> None \<and> orig \<noteq> Some 0 then
                      (let c = copy_bundle now quiz_dst (the orig) ms in (Some (fst c), snd c))
                    else (None, ms));
          new_bundle_id = fst copied; bundle_map = fst (snd copied); st = snd (snd copied);
          ins = insert_row
                  \<lparr>q_quiz_id = quiz_dst, q_text = q_text (snd qrow), q_created_at = now,
                   q_media_bundle_id = new_bundle_id, q_photo = None, q_audio = None,
                   q_audio_is_voice = Some 0\<rparr> (questions st);
          new_qid = fst ins;
          st1 = st\<lparr>questions := snd ins\<rparr>;
          opts = options_for_question (fst qrow) st1;
          st2 = fold (\<lambda>opt s. s\<lparr>options := snd (insert_row
                         \<lparr>o_question_id = new_qid, o_option_index = o_option_index (snd opt),
                          o_text = o_text (snd opt), o_is_correct = o_is_correct (snd opt)\<rparr> (options s))\<rparr>)
                  opts st1;
          atts = get_question_atts (fst qrow) st2;
          st3 = fold (\<lambda>a s. s\<lparr>question_attachments := snd (insert_row
                         \<lparr>a_owner = new_qid, a_kind = a_kind (snd a), a_file_id = a_file_id (snd a),
                          a_position = a_position (snd a)\<rparr> (question_attachments s))\<rparr>)
                  atts st2
      in (new_qid, bundle_map, st3))"

text \<open>The inner loop \<^verbatim>\<open>for q in questions: _copy_question_to_quiz(q, new_quiz_id, bundle_map)\<close>.\<close>

fun copy_questions ::
  "time \<Rightarrow> int \<Rightarrow> (int \<times> question_row) list \<Rightarrow> (int \<rightharpoonup> int) \<times> state \<Rightarrow> (int \<rightharpoonup> int) \<times> state" where
  "copy_questions now quiz_dst [] ms = ms"
| "copy_questions now quiz_dst (q # qs) ms =
     copy_questions now quiz_dst qs (snd (copy_question_to_quiz now quiz_dst q ms))"

definition questions_of :: "int \<Rightarrow> state \<Rightarrow> (int \<times> question_row) list" where
  "questions_of quiz_id st = order_by_id (select_where (\<lambda>i r. q_quiz_id r = quiz_id) (questions st))"

text \<open>The UTF-8 bytes of the title prefix (three Arabic letters, a colon and a space).\<close>

definition merge_prefix :: string where
  "merge_prefix = [CHR 0xD8, CHR 0xAF, CHR 0xD9, CHR 0x85, CHR 0xD8, CHR 0xAC, CHR '':'', CHR '' '']"

text \<open>
  The outer loop \<^verbatim>\<open>for qz in (src_id, dst_id)\<close> reads the questions of \<open>dst_id\<close> only after
  those of \<open>src_id\<close> have been copied. Subscripting a quiz row that was not found raises.
\<close>

definition merge_quizzes_create_new ::
  "config \<Rightarrow> time \<Rightarrow> int \<Rightarrow> int \<Rightarrow> state \<Rightarrow> py_error + int \<times> (int \<rightharpoonup> int) \<times> state" where
  "merge_quizzes_create_new cfg now src_id dst_id st =
     (case (fetchone (select_where (\<lambda>i r. i = src_id) (quizzes st)),
            fetchone (select_where (\<lambda>i r. i = dst_id) (quizzes st))) of
        (Some (si, src), Some (di, dst)) \<Rightarrow>
          (let ins = insert_row
                       \<lparr>qz_title = merge_prefix @ qz_title src @ '' + '' @ qz_title dst,
                        qz_created_by = OWNER_ID cfg, qz_created_at = now, qz_is_archived = 0\<rparr>
                       (quizzes st);
               new_quiz_id = fst ins;
               st1 = st\<lparr>quizzes := snd ins\<rparr>;
               ms1 = copy_questions now new_quiz_id (questions_of src_id st1) (Map.empty, st1);
               ms2 = copy_questions now new_quiz_id (questions_of dst_id (snd ms1)) ms1
           in Inr (new_quiz_id, fst ms2, snd ms2))
      | _ \<Rightarrow> Inl TypeError)"

definition merge_do :: "config \<Rightarrow> time \<Rightarrow> int \<Rightarrow> int \<Rightarrow> int \<Rightarrow> int \<Rightarrow> state \<Rightarrow> state" where
  "merge_do cfg now chat_id user_id src_id dst_id st =
     (if src_id = dst_id then emit (CbAnswer chat_id user_id SameQuizzes) st
      else case merge_quizzes_create_new cfg now src_id dst_id st of
             Inl err \<Rightarrow> emit (Unhandled err) st
           | Inr res \<Rightarrow> emit (MergedReport (fst res)) (snd (snd res)))"

section \<open>Notions used by the properties\<close>

definition minute :: time where
  "minute = 60000000"

text \<open>
  The most recently inserted publish record of a channel and quiz that carries an expiry:
  the one with the largest row id.
\<close>

definition latest_expiry_record :: "int \<Rightarrow> int \<Rightarrow> state \<Rightarrow> int \<Rightarrow> sent_row \<Rightarrow> bool" where
  "latest_expiry_record chat_id quiz_id st i r \<longleftrightarrow>
     (i, r) \<in> set (rows (sent_msgs st)) \<and> sm_chat_id r = chat_id \<and> sm_quiz_id r = quiz_id
     \<and> sm_expires_at r \<noteq> None
     \<and> (\<forall>(j, r') \<in> set (rows (sent_msgs st)).
           sm_chat_id r' = chat_id \<and> sm_quiz_id r' = quiz_id \<and> sm_expires_at r' \<noteq> None \<longrightarrow> j \<le> i)"


text \<open>The grade \<^verbatim>\<open>on_answer\<close> gives the chosen option (the value of its \<^verbatim>\<open>is_correct\<close>).\<close>

definition graded :: "answer_event \<Rightarrow> state \<Rightarrow> int" where
  "graded ev st =
     (case fetchone (select_where
             (\<lambda>i r. o_question_id r = ev_question ev \<and> o_option_index r = ev_option ev) (options st)) of
        None \<Rightarrow> 0 | Some (i, r) \<Rightarrow> if o_is_correct r = 1 then 1 else 0)"

section \<open>A small store for concrete runs\<close>

text \<open>
  Quiz 1 has the questions 1 and 2 with two options each; user 7 is registered in channel
  100 under the name Ann; the quiz has been published there once, expiring at the instant
  written \<open>T\<close>, which \<open>demo_parse\<close> reads as one hour after instant 0.
\<close>

definition demo_cfg :: config where
  "demo_cfg = \<lparr>OWNER_ID = 1, CORRECT_STICKER_ID = [], WRONG_STICKER_ID = [],
                CORRECT_ANIM_ID = [], WRONG_ANIM_ID = []\<rparr>"

definition demo_parse :: "string \<Rightarrow> parsed" where
  "demo_parse s = (if s = ''T'' then Aware (60 * minute) else ValueError)"

definition demo_question :: "int \<Rightarrow> string \<Rightarrow> int option \<Rightarrow> question_row" where
  "demo_question quiz_id txt bundle =
     \<lparr>q_quiz_id = quiz_id, q_text = txt, q_created_at = 0, q_media_bundle_id = bundle,
      q_photo = None, q_audio = None, q_audio_is_voice = Some 0\<rparr>"

definition demo_state :: state where
  "demo_state =
     \<lparr>quizzes = \<lparr>rows = [(1, \<lparr>qz_title = ''Quiz'', qz_created_by = 1, qz_created_at = 0,
                                qz_is_archived = 0\<rparr>)], seq = 1\<rparr>,
      questions = \<lparr>rows = [(1, demo_question 1 ''Q1'' None), (2, demo_question 1 ''Q2'' None)], seq = 2\<rparr>,
      options = \<lparr>rows =
         [(1, \<lparr>o_question_id = 1, o_option_index = 0, o_text = ''a'', o_is_correct = 1\<rparr>),
          (2, \<lparr>o_question_id = 1, o_option_index = 1, o_text = ''b'', o_is_correct = 0\<rparr>),
          (3, \<lparr>o_question_id = 2, o_option_index = 0, o_text = ''c'', o_is_correct = 0\<rparr>),
          (4, \<lparr>o_question_id = 2, o_option_index = 1, o_text = ''d'', o_is_correct = 1\<rparr>)], seq = 4\<rparr>,
      responses = empty_table,
      user_progress = empty_table,
      sent_msgs = \<lparr>rows = [(1, \<lparr>sm_chat_id = 100, sm_quiz_id = 1, sm_message_id = 500,
                                  sm_expires_at = Some ''T''\<rparr>)], seq = 1\<rparr>,
      participant_names = \<lparr>rows = [(1, \<lparr>pn_origin_chat_id = 100, pn_user_id = 7, pn_quiz_id = 1,
                                          pn_name = ''Ann''\<rparr>)], seq = 1\<rparr>,
      question_attachments = empty_table,
      media_bundles = empty_table,
      media_bundle_attachments = empty_table,
      pending_names = [],
      journal = [],
      calls = 0\<rparr>"

definition demo_answer :: "int \<Rightarrow> int \<Rightarrow> int \<Rightarrow> answer_event" where
  "demo_answer user_id question_id option_index =
     \<lparr>ev_chat = 100, ev_user = user_id, ev_question = question_id, ev_option = option_index,
      ev_target = 0\<rparr>"

section \<open>Notions used by the properties of the answer handler\<close>

definition has_response :: "int \<Rightarrow> int \<Rightarrow> int \<Rightarrow> state \<Rightarrow> bool" where
  "has_response chat_id user_id question_id st =
     (select_where (\<lambda>i r. r_chat_id r = chat_id \<and> r_user_id r = user_id \<and> r_question_id r = question_id)
        (responses st) \<noteq> [])"

text \<open>
  The checks \<^verbatim>\<open>on_answer\<close> makes before it looks for an earlier response: the control is
  meant for the requester, the question exists, the session is not expired (and its expiry
  could be compared), and the requester is registered for the quiz.
\<close>

definition passes_gates :: "(string \<Rightarrow> parsed) \<Rightarrow> time \<Rightarrow> answer_event \<Rightarrow> state \<Rightarrow> bool" where
  "passes_gates fromisoformat now ev st =
     ((ev_target ev = 0 \<or> ev_user ev = ev_target ev) \<and>
      (case fetchone (select_where (\<lambda>i r. i = ev_question ev) (questions st)) of
         None \<Rightarrow> False
       | Some (qid, qrow) \<Rightarrow>
           (case quiz_expired fromisoformat now (ev_chat ev) (q_quiz_id qrow) st of
              Inl err \<Rightarrow> False
            | Inr expired \<Rightarrow> expired \<noteq> Some True)
           \<and> has_name (ev_chat ev) (ev_user ev) (q_quiz_id qrow) st))"

text \<open>The uniqueness constraint of \<^verbatim>\<open>responses\<close> as a property of the table.\<close>

definition resp_unique :: "state \<Rightarrow> bool" where
  "resp_unique st =
     distinct (map (\<lambda>(i, r). (r_chat_id r, r_user_id r, r_question_id r)) (rows (responses st)))"

text \<open>The row \<^verbatim>\<open>on_answer\<close> stores for an accepted answer.\<close>

definition response_of :: "time \<Rightarrow> answer_event \<Rightarrow> state \<Rightarrow> response_row" where
  "response_of now ev st =
     \<lparr>r_chat_id = ev_chat ev, r_user_id = ev_user ev, r_question_id = ev_question ev,
      r_option_index = ev_option ev, r_is_correct = graded ev st, r_answered_at = now\<rparr>"

text \<open>The store of the concrete runs after user 7 has answered question 1 correctly.\<close>

definition demo_answered :: state where
  "demo_answered = demo_state\<lparr>responses :=
     \<lparr>rows = [(1, \<lparr>r_chat_id = 100, r_user_id = 7, r_question_id = 1, r_option_index = 0,
                    r_is_correct = 1, r_answered_at = 0\<rparr>)], seq = 1\<rparr>\<rparr>"

text \<open>
  The legacy media columns are migrated when the program starts, and nothing writes them
  afterwards: every question that carries a file id in its legacy photo or audio column
  has an attachment row.
\<close>

definition legacy_migrated :: "state \<Rightarrow> bool" where
  "legacy_migrated st \<longleftrightarrow>
     (\<forall>(i, r) \<in> set (rows (questions st)).
        (q_photo r \<noteq> None \<and> q_photo r \<noteq> Some []) \<or> (q_audio r \<noteq> None \<and> q_audio r \<noteq> Some [])
        \<longrightarrow> select_where (\<lambda>j a. a_owner a = i) (question_attachments st) \<noteq> [])"

text \<open>
  A store that started in an older version of the bot: question 1 still carries its photo
  in the legacy column, and the migration has given it the attachment row.
\<close>

definition demo_migrated :: state where
  "demo_migrated = demo_state
     \<lparr>questions := \<lparr>rows = [(1, (demo_question 1 ''Q1'' None)\<lparr>q_photo := Some ''P''\<rparr>)], seq = 1\<rparr>,
      question_attachments :=
        \<lparr>rows = [(1, \<lparr>a_owner = 1, a_kind = ''photo'', a_file_id = ''P'', a_position = 0\<rparr>)], seq = 1\<rparr>\<rparr>"

text \<open>A transport that delivers every unit, numbering the messages from 1000 on.\<close>

definition demo_transport :: "nat \<Rightarrow> transport_reply" where
  "demo_transport k = Delivered (1000 + int k)"

section \<open>Notions used by the properties of a publish pass\<close>

text \<open>A broadcast unit as the channel sees it: where it comes from, how it is sent, what it says.\<close>

type_synonym unit_sent = "origin \<times> send_method \<times> content"

fun unit_of :: "effect \<Rightarrow> unit_sent list" where
  "unit_of (Broadcast orig m chat c kb res) = [(orig, m, c)]"
| "unit_of e = []"

definition units :: "effect list \<Rightarrow> unit_sent list" where
  "units es = concat (map unit_of es)"







text \<open>A publish step leaves everything but the record of sent messages, the journal and the call count.\<close>

definition same_content :: "state \<Rightarrow> state \<Rightarrow> bool" where
  "same_content st st' \<longleftrightarrow>
     quizzes st' = quizzes st \<and> questions st' = questions st \<and> options st' = options st
     \<and> responses st' = responses st \<and> user_progress st' = user_progress st
     \<and> participant_names st' = participant_names st
     \<and> question_attachments st' = question_attachments st \<and> media_bundles st' = media_bundles st
     \<and> media_bundle_attachments st' = media_bundle_attachments st
     \<and> pending_names st' = pending_names st"

section \<open>Basic facts about the store\<close>

lemma fetchone_simps [simp]: "fetchone [] = None" "fetchone (x # xs) = Some x"
  by (simp_all add: fetchone_def)

lemma fetchone_None_iff [simp]: "fetchone xs = None \<longleftrightarrow> xs = []"
  by (cases xs) simp_all

lemma fetchone_rev: "xs \<noteq> [] \<Longrightarrow> fetchone (rev xs) = Some (last xs)"
  by (induction xs rule: rev_induct) simp_all

lemma celebrate_cases:
  "celebrate cfg c ok st = st \<or> (\<exists>m s. celebrate cfg c ok st = emit (Celebrate c m s) st)"
  by (auto simp: celebrate_def)

lemma emit_fields [simp]:
  "quizzes (emit e st) = quizzes st" "questions (emit e st) = questions st"
  "options (emit e st) = options st" "responses (emit e st) = responses st"
  "user_progress (emit e st) = user_progress st" "sent_msgs (emit e st) = sent_msgs st"
  "participant_names (emit e st) = participant_names st"
  "question_attachments (emit e st) = question_attachments st"
  "media_bundles (emit e st) = media_bundles st"
  "media_bundle_attachments (emit e st) = media_bundle_attachments st"
  "pending_names (emit e st) = pending_names st" "calls (emit e st) = calls st"
  "journal (emit e st) = journal st @ [e]"
  by (simp_all add: emit_def)

lemma store_of_emit [simp]: "store_of (emit e st) = store_of st"
  by (simp add: store_of_def emit_def)

lemma store_of_set_pending [simp]: "store_of (set_pending k st) = store_of st"
  by (simp add: store_of_def set_pending_def)

section \<open>Self-merge\<close>

text \<open>
  Claim C9. A merge request whose source and destination are the same quiz is answered with
  the alert and nothing else happens: the handler returns before
  \<^verbatim>\<open>merge_quizzes_create_new\<close> is called, so every table, the quiz table included, is as it
  was and no row of any kind has been created.
\<close>

theorem merge_do_same_quiz_rejected:
  "merge_do cfg now chat_id user_id quiz_id quiz_id st = emit (CbAnswer chat_id user_id SameQuizzes) st
   \<and> store_of (merge_do cfg now chat_id user_id quiz_id quiz_id st) = store_of st
   \<and> quizzes (merge_do cfg now chat_id user_id quiz_id quiz_id st) = quizzes st
   \<and> questions (merge_do cfg now chat_id user_id quiz_id quiz_id st) = questions st
   \<and> options (merge_do cfg now chat_id user_id quiz_id quiz_id st) = options st
   \<and> question_attachments (merge_do cfg now chat_id user_id quiz_id quiz_id st) = question_attachments st
   \<and> media_bundles (merge_do cfg now chat_id user_id quiz_id quiz_id st) = media_bundles st
   \<and> media_bundle_attachments (merge_do cfg now chat_id user_id quiz_id quiz_id st)
        = media_bundle_attachments st"
  by (simp add: merge_do_def)

lemma last_sort_key_max:
  assumes "xs \<noteq> []" "x \<in> set xs"
  shows "f x \<le> f (last (sort_key f xs))"
proof -
  have s: "sorted (map f (sort_key f xs))" by simp
  have ne: "sort_key f xs \<noteq> []" using assms(1) by (metis length_0_conv length_sort)
  have "x \<in> set (sort_key f xs)" using assms(2) by simp
  then obtain k where k: "k < length (sort_key f xs)" "sort_key f xs ! k = x"
    by (metis in_set_conv_nth)
  have "map f (sort_key f xs) ! k \<le> map f (sort_key f xs) ! (length (sort_key f xs) - 1)"
    using s k(1) by (intro sorted_nth_mono) auto
  then show ?thesis using k ne by (simp add: last_conv_nth)
qed

lemma last_sort_key_mem: "xs \<noteq> [] \<Longrightarrow> last (sort_key f xs) \<in> set xs"
  by (metis last_in_set length_0_conv length_sort set_sort)

lemma latest_row_iff:
  assumes "distinct (map fst (rows t))"
  shows "fetchone (rev (order_by_id (select_where P t))) = Some (i, r) \<longleftrightarrow>
           (i, r) \<in> set (rows t) \<and> P i r \<and> (\<forall>(j, r') \<in> set (rows t). P j r' \<longrightarrow> j \<le> i)"
proof (cases "select_where P t = []")
  case True
  then have "\<forall>(j, r') \<in> set (rows t). \<not> P j r'"
    by (auto simp: select_where_def filter_empty_conv)
  with True show ?thesis by (auto simp: order_by_id_def)
next
  case False
  let ?xs = "select_where P t"
  let ?m = "last (sort_key fst ?xs)"
  have ne: "sort_key fst ?xs \<noteq> []" using False by (metis length_0_conv length_sort)
  have f: "fetchone (rev (order_by_id ?xs)) = Some ?m"
    using ne by (simp add: order_by_id_def fetchone_rev)
  have mem: "?m \<in> set ?xs" using False by (rule last_sort_key_mem)
  have mx: "\<And>x. x \<in> set ?xs \<Longrightarrow> fst x \<le> fst ?m" using False by (rule last_sort_key_max)
  have setxs: "\<And>j r'. (j, r') \<in> set ?xs \<longleftrightarrow> (j, r') \<in> set (rows t) \<and> P j r'"
    by (auto simp: select_where_def)
  show ?thesis
  proof
    assume "fetchone (rev (order_by_id ?xs)) = Some (i, r)"
    then have m: "?m = (i, r)" using f by simp
    show "(i, r) \<in> set (rows t) \<and> P i r \<and> (\<forall>(j, r') \<in> set (rows t). P j r' \<longrightarrow> j \<le> i)"
      using mem mx setxs m by fastforce
  next
    assume a: "(i, r) \<in> set (rows t) \<and> P i r \<and> (\<forall>(j, r') \<in> set (rows t). P j r' \<longrightarrow> j \<le> i)"
    obtain j r' where m: "?m = (j, r')" by (cases ?m)
    have jr: "(j, r') \<in> set (rows t)" "P j r'" using mem m setxs by auto
    have "j \<le> i" using a jr by auto
    moreover have "i \<le> j" using mx[of "(i, r)"] a setxs m by auto
    ultimately have "i = j" by simp
    then have "r = r'" using assms a jr(1) by (metis eq_key_imp_eq_value)
    then show "fetchone (rev (order_by_id ?xs)) = Some (i, r)" using f m \<open>i = j\<close> by simp
  qed
qed


lemma set_pending_fields [simp]:
  "quizzes (set_pending k st) = quizzes st" "questions (set_pending k st) = questions st"
  "options (set_pending k st) = options st" "responses (set_pending k st) = responses st"
  "user_progress (set_pending k st) = user_progress st" "sent_msgs (set_pending k st) = sent_msgs st"
  "participant_names (set_pending k st) = participant_names st"
  "journal (set_pending k st) = journal st" "calls (set_pending k st) = calls st"
  by (simp_all add: set_pending_def)

lemma celebrate_fields [simp]:
  "quizzes (celebrate cfg c ok st) = quizzes st" "questions (celebrate cfg c ok st) = questions st"
  "options (celebrate cfg c ok st) = options st" "responses (celebrate cfg c ok st) = responses st"
  "user_progress (celebrate cfg c ok st) = user_progress st"
  "sent_msgs (celebrate cfg c ok st) = sent_msgs st"
  "participant_names (celebrate cfg c ok st) = participant_names st"
  "pending_names (celebrate cfg c ok st) = pending_names st"
  "calls (celebrate cfg c ok st) = calls st"
  by (simp_all add: celebrate_def)

lemma write_finished_fields [simp]:
  "quizzes (write_finished now c u z st) = quizzes st"
  "questions (write_finished now c u z st) = questions st"
  "options (write_finished now c u z st) = options st"
  "responses (write_finished now c u z st) = responses st"
  "sent_msgs (write_finished now c u z st) = sent_msgs st"
  "participant_names (write_finished now c u z st) = participant_names st"
  "pending_names (write_finished now c u z st) = pending_names st"
  "calls (write_finished now c u z st) = calls st"
  "journal (write_finished now c u z st) = journal st @ [WroteFinished c u z now]"
  by (simp_all add: write_finished_def Let_def)

lemma check_finish_fields [simp]:
  "quizzes (check_finish now c u z st) = quizzes st"
  "questions (check_finish now c u z st) = questions st"
  "options (check_finish now c u z st) = options st"
  "responses (check_finish now c u z st) = responses st"
  "sent_msgs (check_finish now c u z st) = sent_msgs st"
  "participant_names (check_finish now c u z st) = participant_names st"
  "pending_names (check_finish now c u z st) = pending_names st"
  "calls (check_finish now c u z st) = calls st"
  by (simp_all add: check_finish_def Let_def)

lemma fold_max_ge: "(a::int) \<le> fold max xs a"
  by (induction xs arbitrary: a) (auto intro: order_trans[OF max.cobounded2])

lemma fold_max_mem: "x \<in> set xs \<Longrightarrow> (x::int) \<le> fold max xs a"
proof (induction xs arbitrary: a)
  case Nil then show ?case by simp
next
  case (Cons y ys)
  show ?case
  proof (cases "x = y")
    case True
    have "y \<le> max y a" by simp
    also have "\<dots> \<le> fold max ys (max y a)" by (rule fold_max_ge)
    finally show ?thesis using True by simp
  next
    case False
    then show ?thesis using Cons by simp
  qed
qed

lemma next_id_fresh: "(i, r) \<in> set (rows t) \<Longrightarrow> i < next_id t"
proof -
  assume "(i, r) \<in> set (rows t)"
  then have "i \<in> set (map fst (rows t))" by force
  then have "i \<le> fold max (map fst (rows t)) (seq t)" by (rule fold_max_mem)
  then show ?thesis by (simp add: next_id_def)
qed

lemma next_id_seq: "seq t < next_id t"
  using fold_max_ge[of "seq t" "map fst (rows t)"] by (simp add: next_id_def)

lemma insert_row_simps [simp]:
  "fst (insert_row r t) = next_id t"
  "rows (snd (insert_row r t)) = rows t @ [(next_id t, r)]"
  "seq (snd (insert_row r t)) = next_id t"
  by (simp_all add: insert_row_def Let_def)

lemma insort_key_snoc:
  "f y \<le> f x \<Longrightarrow> insort_key f y (zs @ [x]) = insort_key f y zs @ [x]"
  by (induction zs) auto

lemma foldr_insort_snoc:
  "\<forall>y \<in> set xs. f y \<le> f x \<Longrightarrow> foldr (insort_key f) xs [x] = foldr (insort_key f) xs [] @ [x]"
  by (induction xs) (auto simp: insort_key_snoc)

lemma sort_key_snoc:
  "\<forall>y \<in> set xs. f y \<le> f x \<Longrightarrow> sort_key f (xs @ [x]) = sort_key f xs @ [x]"
  by (simp add: sort_key_def foldr_insort_snoc)

lemma quiz_expired_record_sent:
  assumes "s \<noteq> []" "fromisoformat s = Aware e"
  shows "quiz_expired fromisoformat now c z (record_sent c z mid (Some s) st) = Inr (Some (e < now))"
proof -
  define P where "P = (\<lambda>(i::int) (r::sent_row). sm_chat_id r = c \<and> sm_quiz_id r = z \<and> sm_expires_at r \<noteq> None)"
  let ?t = "sent_msgs st"
  let ?new = "(next_id ?t, \<lparr>sm_chat_id = c, sm_quiz_id = z, sm_message_id = mid, sm_expires_at = Some s\<rparr>)"
  have sel: "select_where P (sent_msgs (record_sent c z mid (Some s) st)) = select_where P ?t @ [?new]"
    by (simp add: record_sent_def select_where_def P_def)
  have "\<forall>y \<in> set (select_where P ?t). fst y \<le> fst ?new"
    using next_id_fresh[of _ _ ?t] by (fastforce simp: select_where_def)
  then have "order_by_id (select_where P ?t @ [?new]) = order_by_id (select_where P ?t) @ [?new]"
    unfolding order_by_id_def by (rule sort_key_snoc)
  then have "fetchone (rev (order_by_id (select_where P (sent_msgs (record_sent c z mid (Some s) st)))))
              = Some ?new"
    by (simp add: sel)
  then show ?thesis
    unfolding quiz_expired_def P_def[symmetric] using assms by simp
qed


lemma quiz_expired_cases:
  assumes "distinct (map fst (rows (sent_msgs st)))"
  shows "(\<exists>i r s. latest_expiry_record c z st i r \<and> sm_expires_at r = Some s \<and>
            quiz_expired f now c z st =
              (if s = [] then Inr None
               else case f s of ValueError \<Rightarrow> Inr None | Naive e \<Rightarrow> Inl TypeError
                    | Aware e \<Rightarrow> Inr (Some (e < now))))
         \<or> ((\<forall>i r. \<not> latest_expiry_record c z st i r) \<and> quiz_expired f now c z st = Inr None)"
proof -
  define P where "P = (\<lambda>(i::int) (r::sent_row). sm_chat_id r = c \<and> sm_quiz_id r = z \<and> sm_expires_at r \<noteq> None)"
  have L: "\<And>i r. fetchone (rev (order_by_id (select_where P (sent_msgs st)))) = Some (i, r)
              \<longleftrightarrow> latest_expiry_record c z st i r"
    unfolding latest_row_iff[OF assms] latest_expiry_record_def P_def by auto
  show ?thesis
  proof (cases "fetchone (rev (order_by_id (select_where P (sent_msgs st))))")
    case None
    then have "\<forall>i r. \<not> latest_expiry_record c z st i r" using L by auto
    moreover have "quiz_expired f now c z st = Inr None"
      unfolding quiz_expired_def P_def[symmetric] using None by simp
    ultimately show ?thesis by blast
  next
    case (Some x)
    obtain i r where x: "x = (i, r)" by (cases x)
    have lat: "latest_expiry_record c z st i r"
      by (rule L[THEN iffD1]) (simp add: Some x)
    then obtain s where s: "sm_expires_at r = Some s" by (auto simp: latest_expiry_record_def)
    have "quiz_expired f now c z st =
              (if s = [] then Inr None
               else case f s of ValueError \<Rightarrow> Inr None | Naive e \<Rightarrow> Inl TypeError
                    | Aware e \<Rightarrow> Inr (Some (e < now)))"
      unfolding quiz_expired_def P_def[symmetric] using Some x s by simp
    then show ?thesis using lat s by blast
  qed
qed

lemma latest_expiry_record_unique:
  assumes "distinct (map fst (rows (sent_msgs st)))"
    and "latest_expiry_record c z st i r" "latest_expiry_record c z st j r'"
  shows "i = j \<and> r = r'"
proof -
  have "i \<le> j" "j \<le> i" using assms(2,3) by (auto simp: latest_expiry_record_def)
  then have "i = j" by simp
  moreover have "(i, r) \<in> set (rows (sent_msgs st))" "(j, r') \<in> set (rows (sent_msgs st))"
    using assms(2,3) by (auto simp: latest_expiry_record_def)
  ultimately show ?thesis using assms(1) by (metis eq_key_imp_eq_value)
qed

lemma record_sent_fields [simp]:
  "quizzes (record_sent c z m e st) = quizzes st" "questions (record_sent c z m e st) = questions st"
  "options (record_sent c z m e st) = options st" "responses (record_sent c z m e st) = responses st"
  "user_progress (record_sent c z m e st) = user_progress st"
  "participant_names (record_sent c z m e st) = participant_names st"
  "question_attachments (record_sent c z m e st) = question_attachments st"
  "media_bundles (record_sent c z m e st) = media_bundles st"
  "media_bundle_attachments (record_sent c z m e st) = media_bundle_attachments st"
  "pending_names (record_sent c z m e st) = pending_names st" "calls (record_sent c z m e st) = calls st"
  "journal (record_sent c z m e st) = journal st"
  by (simp_all add: record_sent_def)

lemma has_name_record_sent [simp]: "has_name c u z (record_sent c' z' m e st) = has_name c u z st"
  by (simp add: has_name_def)

lemma insert_response_fresh:
  assumes "select_where (\<lambda>i r'. r_chat_id r' = r_chat_id r \<and> r_user_id r' = r_user_id r
                              \<and> r_question_id r' = r_question_id r) (responses st) = []"
  shows "insert_response r st = Inr (st\<lparr>responses := snd (insert_row r (responses st))\<rparr>)"
  using assms by (simp add: insert_response_def)

lemma record_answer_responses:
  assumes "select_where (\<lambda>i r. r_chat_id r = ev_chat ev \<and> r_user_id r = ev_user ev
                              \<and> r_question_id r = ev_question ev) (responses st) = []"
  shows "responses (record_answer cfg now ev z qt st) =
           snd (insert_row \<lparr>r_chat_id = ev_chat ev, r_user_id = ev_user ev, r_question_id = ev_question ev,
                 r_option_index = ev_option ev, r_is_correct = graded ev st, r_answered_at = now\<rparr>
                 (responses st))"
proof -
  let ?r = "\<lparr>r_chat_id = ev_chat ev, r_user_id = ev_user ev, r_question_id = ev_question ev,
                 r_option_index = ev_option ev, r_is_correct = graded ev st, r_answered_at = now\<rparr>"
  have "insert_response ?r st = Inr (st\<lparr>responses := snd (insert_row ?r (responses st))\<rparr>)"
    by (rule insert_response_fresh) (simp add: assms)
  then show ?thesis
    unfolding record_answer_def graded_def[symmetric] Let_def by simp
qed


lemma on_answer_expired:
  assumes "ev_target ev = 0 \<or> ev_target ev = ev_user ev"
    and "fetchone (select_where (\<lambda>i r. i = ev_question ev) (questions st)) = Some (qid, qrow)"
    and "quiz_expired f now (ev_chat ev) (q_quiz_id qrow) st = Inr (Some True)"
  shows "on_answer cfg f now ev st = emit (CbAnswer (ev_chat ev) (ev_user ev) TimeUpAnswer) st"
  using assms unfolding on_answer_def Let_def by auto

lemma on_answer_accepted:
  assumes "ev_target ev = 0 \<or> ev_target ev = ev_user ev"
    and "fetchone (select_where (\<lambda>i r. i = ev_question ev) (questions st)) = Some (qid, qrow)"
    and "quiz_expired f now (ev_chat ev) (q_quiz_id qrow) st = Inr e" "e \<noteq> Some True"
    and "has_name (ev_chat ev) (ev_user ev) (q_quiz_id qrow) st"
    and "select_where (\<lambda>i r. r_chat_id r = ev_chat ev \<and> r_user_id r = ev_user ev
                              \<and> r_question_id r = ev_question ev) (responses st) = []"
  shows "on_answer cfg f now ev st = record_answer cfg now ev (q_quiz_id qrow) (q_text qrow) st"
  using assms unfolding on_answer_def Let_def by auto

section \<open>Session expiry: the properties\<close>

text \<open>
  Claim C3. Given the primary key of \<^verbatim>\<open>sent_msgs\<close>, \<^verbatim>\<open>_quiz_expired\<close> answers
  \<^verbatim>\<open>True\<close> exactly when the most recently inserted publish record of the channel and quiz
  that carries an expiry has a parsable expiry which lies before \<open>now\<close>; when there is no
  such record, or its expiry is empty or does not parse, it answers \<^verbatim>\<open>None\<close> (not expired).
  In particular, once a record expiring one hour after \<open>t0\<close> has been inserted, the session
  is not expired 59 minutes after \<open>t0\<close> and expired 61 minutes after it: an answer event
  at +61 minutes is rejected with the time-up alert, and one of a registered participant
  who has not yet answered the question is stored at +59 minutes.
\<close>

theorem quiz_expired_latest_record:
  assumes pk: "distinct (map fst (rows (sent_msgs st)))"
  shows "(quiz_expired f now c z st = Inr (Some True) \<longleftrightarrow>
            (\<exists>i r s e. latest_expiry_record c z st i r \<and> sm_expires_at r = Some s \<and> s \<noteq> []
                       \<and> f s = Aware e \<and> e < now))
     \<and> ((\<forall>i r. \<not> latest_expiry_record c z st i r) \<longrightarrow> quiz_expired f now c z st = Inr None)
     \<and> (\<forall>i r s. latest_expiry_record c z st i r \<and> sm_expires_at r = Some s \<and> (s = [] \<or> f s = ValueError)
            \<longrightarrow> quiz_expired f now c z st = Inr None)
     \<and> (\<forall>s mid t0. s \<noteq> [] \<and> f s = Aware (t0 + 60 * minute) \<longrightarrow>
            quiz_expired f (t0 + 59 * minute) c z (record_sent c z mid (Some s) st) = Inr (Some False)
          \<and> quiz_expired f (t0 + 61 * minute) c z (record_sent c z mid (Some s) st) = Inr (Some True))
     \<and> (\<forall>s mid t0 cfg (ev::answer_event) (qrow::question_row).
            s \<noteq> [] \<and> f s = Aware (t0 + 60 * minute) \<and> ev_chat ev = c
            \<and> (ev_target ev = 0 \<or> ev_target ev = ev_user ev)
            \<and> fetchone (select_where (\<lambda>i r. i = ev_question ev) (questions st)) = Some (ev_question ev, qrow)
            \<and> q_quiz_id qrow = z \<longrightarrow>
            on_answer cfg f (t0 + 61 * minute) ev (record_sent c z mid (Some s) st)
              = emit (CbAnswer c (ev_user ev) TimeUpAnswer) (record_sent c z mid (Some s) st)
          \<and> (has_name c (ev_user ev) z st
               \<and> select_where (\<lambda>i r. r_chat_id r = c \<and> r_user_id r = ev_user ev
                                  \<and> r_question_id r = ev_question ev) (responses st) = [] \<longrightarrow>
               select_where (\<lambda>i r. r_chat_id r = c \<and> r_user_id r = ev_user ev
                                  \<and> r_question_id r = ev_question ev)
                 (responses (on_answer cfg f (t0 + 59 * minute) ev (record_sent c z mid (Some s) st))) \<noteq> []))"
proof (intro conjI allI impI)
  note C = quiz_expired_cases[OF pk, of c z f now]
  show "quiz_expired f now c z st = Inr (Some True) \<longleftrightarrow>
            (\<exists>i r s e. latest_expiry_record c z st i r \<and> sm_expires_at r = Some s \<and> s \<noteq> []
                       \<and> f s = Aware e \<and> e < now)" (is "?L \<longleftrightarrow> ?R")
  proof
    assume ?L
    with C obtain i r s where 1: "latest_expiry_record c z st i r" "sm_expires_at r = Some s"
      and 2: "(if s = [] then Inr None
               else case f s of ValueError \<Rightarrow> Inr None | Naive e \<Rightarrow> Inl TypeError
                    | Aware e \<Rightarrow> Inr (Some (e < now))) = (Inr (Some True) :: py_error + bool option)"
      by auto
    from 2 have "s \<noteq> []" by (auto split: if_splits)
    with 2 obtain e where "f s = Aware e" "e < now" by (cases "f s") auto
    with 1 \<open>s \<noteq> []\<close> show ?R by blast
  next
    assume ?R
    then obtain i r s e where 1: "latest_expiry_record c z st i r" "sm_expires_at r = Some s" "s \<noteq> []"
      "f s = Aware e" "e < now" by blast
    from C 1(1) obtain i' r' s' where 2: "latest_expiry_record c z st i' r'" "sm_expires_at r' = Some s'"
      "quiz_expired f now c z st = (if s' = [] then Inr None
               else case f s' of ValueError \<Rightarrow> Inr None | Naive e \<Rightarrow> Inl TypeError
                    | Aware e \<Rightarrow> Inr (Some (e < now)))" by blast
    have "r' = r" using latest_expiry_record_unique[OF pk 1(1) 2(1)] by simp
    then have "s' = s" using 1(2) 2(2) by simp
    then show ?L using 2(3) 1 by simp
  qed
next
  assume "\<forall>i r. \<not> latest_expiry_record c z st i r"
  then show "quiz_expired f now c z st = Inr None"
    using quiz_expired_cases[OF pk, of c z f now] by blast
next
  fix i r s
  assume a: "latest_expiry_record c z st i r \<and> sm_expires_at r = Some s \<and> (s = [] \<or> f s = ValueError)"
  from quiz_expired_cases[OF pk, of c z f now] a
  obtain i' r' s' where 2: "latest_expiry_record c z st i' r'" "sm_expires_at r' = Some s'"
      "quiz_expired f now c z st = (if s' = [] then Inr None
               else case f s' of ValueError \<Rightarrow> Inr None | Naive e \<Rightarrow> Inl TypeError
                    | Aware e \<Rightarrow> Inr (Some (e < now)))" by blast
  have "r' = r" using latest_expiry_record_unique[OF pk _ 2(1), of i r] a by simp
  then have "s' = s" using a 2(2) by simp
  then show "quiz_expired f now c z st = Inr None" using 2(3) a by auto
next
  fix s mid t0
  assume a: "s \<noteq> [] \<and> f s = Aware (t0 + 60 * minute)"
  then show "quiz_expired f (t0 + 59 * minute) c z (record_sent c z mid (Some s) st) = Inr (Some False)"
    by (simp add: quiz_expired_record_sent minute_def)
  from a show "quiz_expired f (t0 + 61 * minute) c z (record_sent c z mid (Some s) st) = Inr (Some True)"
    by (simp add: quiz_expired_record_sent minute_def)
next
  fix s mid t0 cfg and ev :: answer_event and qrow :: question_row
  assume a: "s \<noteq> [] \<and> f s = Aware (t0 + 60 * minute) \<and> ev_chat ev = c
            \<and> (ev_target ev = 0 \<or> ev_target ev = ev_user ev)
            \<and> fetchone (select_where (\<lambda>i r. i = ev_question ev) (questions st)) = Some (ev_question ev, qrow)
            \<and> q_quiz_id qrow = z"
  let ?st = "record_sent c z mid (Some s) st"
  have late: "quiz_expired f (t0 + 61 * minute) (ev_chat ev) (q_quiz_id qrow) ?st = Inr (Some True)"
    using a by (simp add: quiz_expired_record_sent minute_def)
  have early: "quiz_expired f (t0 + 59 * minute) (ev_chat ev) (q_quiz_id qrow) ?st = Inr (Some False)"
    using a by (simp add: quiz_expired_record_sent minute_def)
  have q: "fetchone (select_where (\<lambda>i r. i = ev_question ev) (questions ?st)) = Some (ev_question ev, qrow)"
    using a by simp
  show "on_answer cfg f (t0 + 61 * minute) ev ?st = emit (CbAnswer c (ev_user ev) TimeUpAnswer) ?st"
    using on_answer_expired[OF _ q late, of cfg] a by simp
  {
    assume b: "has_name c (ev_user ev) z st
               \<and> select_where (\<lambda>i r. r_chat_id r = c \<and> r_user_id r = ev_user ev
                                  \<and> r_question_id r = ev_question ev) (responses st) = []"
    have np: "select_where (\<lambda>i r. r_chat_id r = ev_chat ev \<and> r_user_id r = ev_user ev
                              \<and> r_question_id r = ev_question ev) (responses ?st) = []"
      using a b by simp
    have hn: "has_name (ev_chat ev) (ev_user ev) (q_quiz_id qrow) ?st" using a b by simp
    have "on_answer cfg f (t0 + 59 * minute) ev ?st
            = record_answer cfg (t0 + 59 * minute) ev (q_quiz_id qrow) (q_text qrow) ?st"
      using a by (intro on_answer_accepted[OF _ q early _ hn np]) auto
    then show "select_where (\<lambda>i r. r_chat_id r = c \<and> r_user_id r = ev_user ev
                                  \<and> r_question_id r = ev_question ev)
                 (responses (on_answer cfg f (t0 + 59 * minute) ev ?st)) \<noteq> []"
      using a by (simp add: record_answer_responses[OF np] select_where_def)
  }
qed


text \<open>The store of the concrete runs, read at 59 and at 61 minutes.\<close>

theorem quiz_expired_latest_record_witness:
  "distinct (map fst (rows (sent_msgs demo_state)))
   \<and> latest_expiry_record 100 1 demo_state 1
        \<lparr>sm_chat_id = 100, sm_quiz_id = 1, sm_message_id = 500, sm_expires_at = Some ''T''\<rparr>
   \<and> quiz_expired demo_parse (61 * minute) 100 1 demo_state = Inr (Some True)
   \<and> quiz_expired demo_parse (59 * minute) 100 1 demo_state \<noteq> Inr (Some True)
   \<and> quiz_expired demo_parse (61 * minute) 100 1 (record_sent 100 1 501 (Some ''T'') demo_state)
        = Inr (Some True)
   \<and> on_answer demo_cfg demo_parse (61 * minute) (demo_answer 7 1 0)
        (record_sent 100 1 501 (Some ''T'') demo_state)
      = emit (CbAnswer 100 7 TimeUpAnswer) (record_sent 100 1 501 (Some ''T'') demo_state)"
proof -
  have pk: "distinct (map fst (rows (sent_msgs demo_state)))"
    by (simp add: demo_state_def)
  have lat: "latest_expiry_record 100 1 demo_state 1
        \<lparr>sm_chat_id = 100, sm_quiz_id = 1, sm_message_id = 500, sm_expires_at = Some ''T''\<rparr>"
    by (simp add: latest_expiry_record_def demo_state_def)
  note T = quiz_expired_latest_record[OF pk, where f = demo_parse and c = 100 and z = 1]
  have p: "demo_parse ''T'' = Aware (0 + 60 * minute)" by (simp add: demo_parse_def)
  have "\<exists>i r s e. latest_expiry_record 100 1 demo_state i r \<and> sm_expires_at r = Some s \<and> s \<noteq> []
            \<and> demo_parse s = Aware e \<and> e < 61 * minute"
    by (rule exI[of _ 1],
        rule exI[of _ "\<lparr>sm_chat_id = 100, sm_quiz_id = 1, sm_message_id = 500, sm_expires_at = Some ''T''\<rparr>"],
        rule exI[of _ "''T''"], rule exI[of _ "60 * minute"])
       (simp add: lat demo_parse_def minute_def)
  then have e1: "quiz_expired demo_parse (61 * minute) 100 1 demo_state = Inr (Some True)"
    by (rule T[of "61 * minute", THEN conjunct1, THEN iffD2])
  have e2: "quiz_expired demo_parse (59 * minute) 100 1 demo_state \<noteq> Inr (Some True)"
  proof
    assume "quiz_expired demo_parse (59 * minute) 100 1 demo_state = Inr (Some True)"
    then obtain i r s e where "latest_expiry_record 100 1 demo_state i r" "sm_expires_at r = Some s"
      "demo_parse s = Aware e" "e < 59 * minute"
      using T[of "59 * minute", THEN conjunct1] by blast
    then show False
      by (auto simp: latest_expiry_record_def demo_state_def demo_parse_def minute_def split: if_splits)
  qed
  have q: "fetchone (select_where (\<lambda>i r. i = ev_question (demo_answer 7 1 0)) (questions demo_state))
             = Some (ev_question (demo_answer 7 1 0), demo_question 1 ''Q1'' None)"
    by (simp add: demo_state_def demo_answer_def select_where_def)
  have e3: "quiz_expired demo_parse (0 + 61 * minute) 100 1 (record_sent 100 1 501 (Some ''T'') demo_state)
        = Inr (Some True)"
    using T[of "61 * minute"] p by blast
  have e4: "on_answer demo_cfg demo_parse (0 + 61 * minute) (demo_answer 7 1 0)
        (record_sent 100 1 501 (Some ''T'') demo_state)
      = emit (CbAnswer 100 (ev_user (demo_answer 7 1 0)) TimeUpAnswer) (record_sent 100 1 501 (Some ''T'') demo_state)"
    using T[of "61 * minute", THEN conjunct2, THEN conjunct2, THEN conjunct2, THEN conjunct2,
            rule_format, of "''T''" 0 "demo_answer 7 1 0" "demo_question 1 ''Q1'' None" demo_cfg 501]
      p q by (simp add: demo_answer_def demo_question_def)
  show ?thesis using pk lat e1 e2 e3 e4 by (simp add: demo_answer_def)
qed

section \<open>The answer handler, case by case\<close>

lemma on_answer_responses:
  "responses (on_answer cfg f now ev st) =
     (if passes_gates f now ev st \<and> \<not> has_response (ev_chat ev) (ev_user ev) (ev_question ev) st
      then snd (insert_row (response_of now ev st) (responses st))
      else responses st)"
proof (cases "passes_gates f now ev st \<and> \<not> has_response (ev_chat ev) (ev_user ev) (ev_question ev) st")
  case True
  then have t: "ev_target ev = 0 \<or> ev_target ev = ev_user ev"
    by (auto simp: passes_gates_def)
  from True obtain x where x: "fetchone (select_where (\<lambda>i r. i = ev_question ev) (questions st)) = Some x"
    by (cases "fetchone (select_where (\<lambda>i r. i = ev_question ev) (questions st))")
       (auto simp: passes_gates_def)
  obtain qid qrow where xq: "x = (qid, qrow)" by (cases x)
  have q: "fetchone (select_where (\<lambda>i r. i = ev_question ev) (questions st)) = Some (qid, qrow)"
    using x xq by simp
  from True q obtain e where e: "quiz_expired f now (ev_chat ev) (q_quiz_id qrow) st = Inr e" "e \<noteq> Some True"
    by (cases "quiz_expired f now (ev_chat ev) (q_quiz_id qrow) st") (auto simp: passes_gates_def)
  have hn: "has_name (ev_chat ev) (ev_user ev) (q_quiz_id qrow) st"
    using True q by (simp add: passes_gates_def)
  have np: "select_where (\<lambda>i r. r_chat_id r = ev_chat ev \<and> r_user_id r = ev_user ev
                              \<and> r_question_id r = ev_question ev) (responses st) = []"
    using True by (simp add: has_response_def)
  have "on_answer cfg f now ev st = record_answer cfg now ev (q_quiz_id qrow) (q_text qrow) st"
    by (rule on_answer_accepted[OF t q e hn np])
  then show ?thesis using True by (simp add: record_answer_responses[OF np] response_of_def)
next
  case False
  then show ?thesis
    unfolding on_answer_def passes_gates_def has_response_def Let_def
    by (auto split: option.splits sum.splits)
qed


lemma on_answer_gated:
  assumes "passes_gates f now ev st"
  shows "\<exists>qid qrow. fetchone (select_where (\<lambda>i r. i = ev_question ev) (questions st)) = Some (qid, qrow)
           \<and> on_answer cfg f now ev st =
               (if has_response (ev_chat ev) (ev_user ev) (ev_question ev) st
                then emit (CbAnswer (ev_chat ev) (ev_user ev) AlreadyAnswered) st
                else record_answer cfg now ev (q_quiz_id qrow) (q_text qrow) st)"
proof -
  have t: "\<not> (ev_target ev \<noteq> 0 \<and> ev_user ev \<noteq> ev_target ev)"
    using assms by (auto simp: passes_gates_def)
  from assms obtain x where x: "fetchone (select_where (\<lambda>i r. i = ev_question ev) (questions st)) = Some x"
    by (cases "fetchone (select_where (\<lambda>i r. i = ev_question ev) (questions st))")
       (auto simp: passes_gates_def)
  obtain qid qrow where xq: "x = (qid, qrow)" by (cases x)
  have q: "fetchone (select_where (\<lambda>i r. i = ev_question ev) (questions st)) = Some (qid, qrow)"
    using x xq by simp
  from assms q obtain e where e: "quiz_expired f now (ev_chat ev) (q_quiz_id qrow) st = Inr e" "e \<noteq> Some True"
    by (cases "quiz_expired f now (ev_chat ev) (q_quiz_id qrow) st") (auto simp: passes_gates_def)
  have hn: "has_name (ev_chat ev) (ev_user ev) (q_quiz_id qrow) st"
    using assms q by (simp add: passes_gates_def)
  have "on_answer cfg f now ev st =
               (if has_response (ev_chat ev) (ev_user ev) (ev_question ev) st
                then emit (CbAnswer (ev_chat ev) (ev_user ev) AlreadyAnswered) st
                else record_answer cfg now ev (q_quiz_id qrow) (q_text qrow) st)"
  proof (cases "ev_target ev = 0")
    case True
    then show ?thesis
      unfolding on_answer_def Let_def has_response_def using q e hn by simp
  next
    case False
    with t have "ev_user ev = ev_target ev" by simp
    then show ?thesis
      unfolding on_answer_def Let_def has_response_def using q e hn by simp
  qed
  with q show ?thesis by blast
qed

lemma on_answer_already_answered:
  assumes "has_response (ev_chat ev) (ev_user ev) (ev_question ev) st" "passes_gates f now ev st"
  shows "on_answer cfg f now ev st = emit (CbAnswer (ev_chat ev) (ev_user ev) AlreadyAnswered) st"
  using on_answer_gated[OF assms(2), of cfg] assms(1) by auto

lemma on_answer_not_gated:
  assumes "\<not> passes_gates f now ev st"
  shows "store_of (on_answer cfg f now ev st) = store_of st"
proof (cases "ev_target ev \<noteq> 0 \<and> ev_user ev \<noteq> ev_target ev")
  case True
  then show ?thesis unfolding on_answer_def Let_def by simp
next
  case t: False
  show ?thesis
  proof (cases "fetchone (select_where (\<lambda>i r. i = ev_question ev) (questions st))")
    case None
    then show ?thesis unfolding on_answer_def Let_def using t
      by simp
  next
    case (Some x)
    obtain qid qrow where xq: "x = (qid, qrow)" by (cases x)
    note q = Some[unfolded xq]
    show ?thesis
    proof (cases "quiz_expired f now (ev_chat ev) (q_quiz_id qrow) st")
      case (Inl err)
      then show ?thesis unfolding on_answer_def Let_def using t q
        by simp
    next
      case (Inr e)
      show ?thesis
      proof (cases "e = Some True")
        case True
        then show ?thesis unfolding on_answer_def Let_def using t q Inr
          by simp
      next
        case False
        then have "\<not> has_name (ev_chat ev) (ev_user ev) (q_quiz_id qrow) st"
          using assms t q Inr by (auto simp: passes_gates_def)
        then show ?thesis unfolding on_answer_def Let_def using t q Inr False
          by simp
      qed
    qed
  qed
qed

lemma on_answer_store_unchanged:
  assumes "has_response (ev_chat ev) (ev_user ev) (ev_question ev) st"
  shows "store_of (on_answer cfg f now ev st) = store_of st"
proof (cases "passes_gates f now ev st")
  case True
  then show ?thesis using on_answer_already_answered[OF assms True, of cfg] by (simp only: store_of_emit)
next
  case False
  then show ?thesis by (rule on_answer_not_gated)
qed

lemma resp_unique_insert:
  assumes "resp_unique st" "\<not> has_response (r_chat_id r) (r_user_id r) (r_question_id r) st"
  shows "distinct (map (\<lambda>(i, r). (r_chat_id r, r_user_id r, r_question_id r))
           (rows (snd (insert_row r (responses st)))))"
proof -
  have "\<forall>(i, r') \<in> set (rows (responses st)).
          \<not> (r_chat_id r' = r_chat_id r \<and> r_user_id r' = r_user_id r \<and> r_question_id r' = r_question_id r)"
    using assms(2) by (auto simp: has_response_def select_where_def filter_empty_conv)
  then have "(r_chat_id r, r_user_id r, r_question_id r)
               \<notin> set (map (\<lambda>(i, r). (r_chat_id r, r_user_id r, r_question_id r)) (rows (responses st)))"
    by auto
  then show ?thesis using assms(1) by (simp add: resp_unique_def)
qed

lemma on_answer_resp_unique:
  assumes "resp_unique st"
  shows "resp_unique (on_answer cfg f now ev st)"
proof (cases "passes_gates f now ev st \<and> \<not> has_response (ev_chat ev) (ev_user ev) (ev_question ev) st")
  case True
  then have "\<not> has_response (r_chat_id (response_of now ev st)) (r_user_id (response_of now ev st))
                 (r_question_id (response_of now ev st)) st"
    by (simp add: response_of_def)
  from resp_unique_insert[OF assms this] True show ?thesis
    by (simp add: resp_unique_def on_answer_responses)
next
  case False
  have "responses (on_answer cfg f now ev st) = responses st"
    using False on_answer_responses[of cfg f now ev st] by (simp only: if_False)
  then show ?thesis using assms by (simp add: resp_unique_def)
qed

lemma on_answer_duplicate_reply:
  assumes "has_response (ev_chat ev) (ev_user ev) (ev_question ev) st"
  shows "on_answer cfg f now ev st =
     (if ev_target ev \<noteq> 0 \<and> ev_user ev \<noteq> ev_target ev
      then emit (CbAnswer (ev_chat ev) (ev_user ev) WrongTarget) st
      else case fetchone (select_where (\<lambda>i r. i = ev_question ev) (questions st)) of
        None \<Rightarrow> emit (CbAnswer (ev_chat ev) (ev_user ev) QuestionMissing) st
      | Some (qid, qrow) \<Rightarrow>
          (case quiz_expired f now (ev_chat ev) (q_quiz_id qrow) st of
             Inl err \<Rightarrow> emit (Unhandled err) st
           | Inr expired \<Rightarrow>
               if expired = Some True then emit (CbAnswer (ev_chat ev) (ev_user ev) TimeUpAnswer) st
               else if \<not> has_name (ev_chat ev) (ev_user ev) (q_quiz_id qrow) st then
                 emit (CbAnswer (ev_chat ev) (ev_user ev) Blank)
                   (emit (NamePrompt (ev_chat ev) (ev_user ev))
                      (set_pending (ev_chat ev, ev_user ev, q_quiz_id qrow) st))
               else emit (CbAnswer (ev_chat ev) (ev_user ev) AlreadyAnswered) st))"
proof -
  define wrong where "wrong = (ev_target ev \<noteq> 0 \<and> ev_user ev \<noteq> ev_target ev)"
  have prev: "select_where (\<lambda>i r. r_chat_id r = ev_chat ev \<and> r_user_id r = ev_user ev
                              \<and> r_question_id r = ev_question ev) (responses st) \<noteq> []"
    using assms by (simp add: has_response_def)
  show ?thesis
  proof (cases wrong)
    case True
    then show ?thesis unfolding on_answer_def Let_def wrong_def[symmetric] by simp
  next
    case t: False
    show ?thesis
    proof (cases "fetchone (select_where (\<lambda>i r. i = ev_question ev) (questions st))")
      case None
      then show ?thesis unfolding on_answer_def Let_def wrong_def[symmetric] using t by simp
    next
      case (Some x)
      obtain qid qrow where xq: "x = (qid, qrow)" by (cases x)
      note q = Some[unfolded xq]
      show ?thesis
      proof (cases "quiz_expired f now (ev_chat ev) (q_quiz_id qrow) st")
        case (Inl err)
        then show ?thesis unfolding on_answer_def Let_def wrong_def[symmetric] using t q by simp
      next
        case (Inr e)
        show ?thesis
        proof (cases "e = Some True")
          case True
          then show ?thesis unfolding on_answer_def Let_def wrong_def[symmetric] using t q Inr by simp
        next
          case e: False
          show ?thesis
          proof (cases "has_name (ev_chat ev) (ev_user ev) (q_quiz_id qrow) st")
            case True
            then show ?thesis
              unfolding on_answer_def Let_def wrong_def[symmetric] using t q Inr e prev by simp
          next
            case False
            then show ?thesis
              unfolding on_answer_def Let_def wrong_def[symmetric] using t q Inr e by simp
          qed
        qed
      qed
    qed
  qed
qed

section \<open>Answering a question twice\<close>

text \<open>
  Claim C1, as amended. When a response already exists for the channel, user and question of
  an answer event, the event changes no table: the existing response is not overwritten and
  none is inserted. The handler answers it with the first that applies of: the
  wrong-participant alert when the control names another user; the not-found alert when the
  question row is gone; an unhandled error when the expiry of the session cannot be compared
  with the clock; the time-up alert when the session is expired; the name prompt (with the
  pending name marked) when the requester is not registered for the quiz; and otherwise,
  that is whenever the event passes all these checks, the already-answered alert. Every
  answer event preserves the uniqueness of responses per channel, user and question.
\<close>

theorem on_answer_duplicate_rejected:
  "(has_response (ev_chat ev) (ev_user ev) (ev_question ev) st \<longrightarrow>
      store_of (on_answer cfg f now ev st) = store_of st
      \<and> responses (on_answer cfg f now ev st) = responses st
      \<and> (passes_gates f now ev st \<longrightarrow>
           on_answer cfg f now ev st = emit (CbAnswer (ev_chat ev) (ev_user ev) AlreadyAnswered) st)
      \<and> on_answer cfg f now ev st =
          (if ev_target ev \<noteq> 0 \<and> ev_user ev \<noteq> ev_target ev
           then emit (CbAnswer (ev_chat ev) (ev_user ev) WrongTarget) st
           else case fetchone (select_where (\<lambda>i r. i = ev_question ev) (questions st)) of
             None \<Rightarrow> emit (CbAnswer (ev_chat ev) (ev_user ev) QuestionMissing) st
           | Some (qid, qrow) \<Rightarrow>
               (case quiz_expired f now (ev_chat ev) (q_quiz_id qrow) st of
                  Inl err \<Rightarrow> emit (Unhandled err) st
                | Inr expired \<Rightarrow>
                    if expired = Some True
                    then emit (CbAnswer (ev_chat ev) (ev_user ev) TimeUpAnswer) st
                    else if \<not> has_name (ev_chat ev) (ev_user ev) (q_quiz_id qrow) st then
                      emit (CbAnswer (ev_chat ev) (ev_user ev) Blank)
                        (emit (NamePrompt (ev_chat ev) (ev_user ev))
                           (set_pending (ev_chat ev, ev_user ev, q_quiz_id qrow) st))
                    else emit (CbAnswer (ev_chat ev) (ev_user ev) AlreadyAnswered) st)))
   \<and> (resp_unique st \<longrightarrow> resp_unique (on_answer cfg f now ev st))"
proof (intro conjI impI)
  assume h: "has_response (ev_chat ev) (ev_user ev) (ev_question ev) st"
  show "store_of (on_answer cfg f now ev st) = store_of st"
    using h by (rule on_answer_store_unchanged)
  show "responses (on_answer cfg f now ev st) = responses st"
    using h on_answer_responses[of cfg f now ev st] by (simp only: simp_thms if_False)
  show "on_answer cfg f now ev st =
          (if ev_target ev \<noteq> 0 \<and> ev_user ev \<noteq> ev_target ev
           then emit (CbAnswer (ev_chat ev) (ev_user ev) WrongTarget) st
           else case fetchone (select_where (\<lambda>i r. i = ev_question ev) (questions st)) of
             None \<Rightarrow> emit (CbAnswer (ev_chat ev) (ev_user ev) QuestionMissing) st
           | Some (qid, qrow) \<Rightarrow>
               (case quiz_expired f now (ev_chat ev) (q_quiz_id qrow) st of
                  Inl err \<Rightarrow> emit (Unhandled err) st
                | Inr expired \<Rightarrow>
                    if expired = Some True
                    then emit (CbAnswer (ev_chat ev) (ev_user ev) TimeUpAnswer) st
                    else if \<not> has_name (ev_chat ev) (ev_user ev) (q_quiz_id qrow) st then
                      emit (CbAnswer (ev_chat ev) (ev_user ev) Blank)
                        (emit (NamePrompt (ev_chat ev) (ev_user ev))
                           (set_pending (ev_chat ev, ev_user ev, q_quiz_id qrow) st))
                    else emit (CbAnswer (ev_chat ev) (ev_user ev) AlreadyAnswered) st))"
    using h by (rule on_answer_duplicate_reply)
  {
    assume "passes_gates f now ev st"
    with h show "on_answer cfg f now ev st = emit (CbAnswer (ev_chat ev) (ev_user ev) AlreadyAnswered) st"
      by (rule on_answer_already_answered)
  }
next
  assume "resp_unique st"
  then show "resp_unique (on_answer cfg f now ev st)" by (rule on_answer_resp_unique)
qed

lemmas demo_defs = demo_state_def demo_answered_def demo_answer_def demo_question_def demo_parse_def
  demo_cfg_def minute_def empty_table_def

lemmas eval_defs = select_where_def order_by_id_def has_name_def has_response_def quiz_expired_def
  passes_gates_def

lemma demo_has_response: "has_response 100 7 1 demo_answered"
  by (simp add: demo_defs eval_defs)


lemma demo_expired_late:
  "quiz_expired demo_parse (61 * minute) 100 1 demo_answered = Inr (Some True)"
  by (simp add: demo_defs eval_defs)

lemma demo_gates_early:
  "passes_gates demo_parse (59 * minute) (demo_answer 7 1 0) demo_answered"
  by (simp add: demo_defs eval_defs)


lemma demo_answer_fields:
  "ev_chat (demo_answer u q k) = 100" "ev_user (demo_answer u q k) = u"
  "ev_question (demo_answer u q k) = q" "ev_option (demo_answer u q k) = k"
  "ev_target (demo_answer u q k) = 0"
  by (simp_all add: demo_answer_def)

text \<open>
  The claim as first stated fails: the user of the concrete store has answered question 1,
  and answering it again at 61 minutes is turned away with the time-up alert, not with the
  already-answered one.
\<close>

theorem on_answer_duplicate_counterexample:
  "has_response 100 7 1 demo_answered
   \<and> journal (on_answer demo_cfg demo_parse (61 * minute) (demo_answer 7 1 0) demo_answered)
       = [CbAnswer 100 7 TimeUpAnswer]
   \<and> on_answer demo_cfg demo_parse (61 * minute) (demo_answer 7 1 0) demo_answered
       \<noteq> emit (CbAnswer 100 7 AlreadyAnswered) demo_answered"
proof -
  have q: "fetchone (select_where (\<lambda>i r. i = ev_question (demo_answer 7 1 0)) (questions demo_answered))
             = Some (1, demo_question 1 ''Q1'' None)"
    by (simp add: demo_defs eval_defs)
  have e: "quiz_expired demo_parse (61 * minute) (ev_chat (demo_answer 7 1 0))
             (q_quiz_id (demo_question 1 ''Q1'' None)) demo_answered = Inr (Some True)"
    using demo_expired_late by (simp add: demo_answer_fields demo_question_def)
  have o: "on_answer demo_cfg demo_parse (61 * minute) (demo_answer 7 1 0) demo_answered
             = emit (CbAnswer 100 7 TimeUpAnswer) demo_answered"
    using on_answer_expired[OF _ q e, of demo_cfg] by (simp only: demo_answer_fields simp_thms)
  have j0: "journal demo_answered = []" by (simp add: demo_defs)
  have j: "journal (on_answer demo_cfg demo_parse (61 * minute) (demo_answer 7 1 0) demo_answered)
       = [CbAnswer 100 7 TimeUpAnswer]"
    by (simp only: o emit_fields j0 append_Nil)
  have j2: "journal (emit (CbAnswer 100 7 AlreadyAnswered) demo_answered) = [CbAnswer 100 7 AlreadyAnswered]"
    by (simp only: emit_fields j0 append_Nil)
  have ne: "on_answer demo_cfg demo_parse (61 * minute) (demo_answer 7 1 0) demo_answered
       \<noteq> emit (CbAnswer 100 7 AlreadyAnswered) demo_answered"
  proof
    assume "on_answer demo_cfg demo_parse (61 * minute) (demo_answer 7 1 0) demo_answered
       = emit (CbAnswer 100 7 AlreadyAnswered) demo_answered"
    then have "journal (on_answer demo_cfg demo_parse (61 * minute) (demo_answer 7 1 0) demo_answered)
       = journal (emit (CbAnswer 100 7 AlreadyAnswered) demo_answered)" by (rule arg_cong)
    then have "[CbAnswer 100 7 TimeUpAnswer] = [CbAnswer 100 7 AlreadyAnswered]"
      by (simp only: j j2)
    then show False by simp
  qed
  from demo_has_response j ne show ?thesis by blast
qed

text \<open>The same second answer at 59 minutes.\<close>

theorem on_answer_duplicate_rejected_witness:
  "has_response 100 7 1 demo_answered
   \<and> passes_gates demo_parse (59 * minute) (demo_answer 7 1 0) demo_answered
   \<and> resp_unique demo_answered
   \<and> store_of (on_answer demo_cfg demo_parse (59 * minute) (demo_answer 7 1 0) demo_answered)
       = store_of demo_answered
   \<and> on_answer demo_cfg demo_parse (59 * minute) (demo_answer 7 1 0) demo_answered
       = emit (CbAnswer 100 7 AlreadyAnswered) demo_answered
   \<and> resp_unique (on_answer demo_cfg demo_parse (59 * minute) (demo_answer 7 1 0) demo_answered)"
proof -
  have u: "resp_unique demo_answered" by (simp add: resp_unique_def demo_defs)
  note T = on_answer_duplicate_rejected[of "demo_answer 7 1 0" demo_answered demo_cfg demo_parse
              "59 * minute", unfolded demo_answer_fields]
  from T demo_has_response
  have a: "store_of (on_answer demo_cfg demo_parse (59 * minute) (demo_answer 7 1 0) demo_answered)
       = store_of demo_answered" by blast
  from T demo_has_response demo_gates_early
  have b: "on_answer demo_cfg demo_parse (59 * minute) (demo_answer 7 1 0) demo_answered
       = emit (CbAnswer 100 7 AlreadyAnswered) demo_answered" by blast
  from T u
  have c: "resp_unique (on_answer demo_cfg demo_parse (59 * minute) (demo_answer 7 1 0) demo_answered)"
    by blast
  from demo_has_response demo_gates_early u a b c show ?thesis by blast
qed

lemma celebrate_journal:
  "\<exists>es. journal (celebrate cfg c ok st) = journal st @ es \<and> (\<forall>e \<in> set es. \<exists>m s. e = Celebrate c m s)"
proof -
  from celebrate_cases[of cfg c ok st] show ?thesis
  proof
    assume "celebrate cfg c ok st = st"
    then have "journal (celebrate cfg c ok st) = journal st @ []" by simp
    then show ?thesis by fastforce
  next
    assume "\<exists>m s. celebrate cfg c ok st = emit (Celebrate c m s) st"
    then obtain m s where "celebrate cfg c ok st = emit (Celebrate c m s) st" by blast
    then have "journal (celebrate cfg c ok st) = journal st @ [Celebrate c m s]" by simp
    then show ?thesis by fastforce
  qed
qed

lemma check_finish_journal:
  "\<exists>name. journal (check_finish now c u z st) = journal st @
     (if answered_cnt c u (get_quiz_question_ids z st) st = length (get_quiz_question_ids z st)
      then [WroteFinished c u z now,
            CbAnswer c u (FinalPopup (score_sum c u (get_quiz_question_ids z st) st)
                            (length (get_quiz_question_ids z st))),
            FinalResult c u z name (score_sum c u (get_quiz_question_ids z st) st)
              (length (get_quiz_question_ids z st))]
      else [])"
  unfolding check_finish_def Let_def by (cases "answered_cnt c u (get_quiz_question_ids z st) st = length (get_quiz_question_ids z st)") simp_all

lemma record_answer_journal:
  assumes "\<not> has_response (ev_chat ev) (ev_user ev) (ev_question ev) st"
  shows "\<exists>ct rest. journal (record_answer cfg now ev z qt st) = journal st @
           CbAnswer (ev_chat ev) (ev_user ev)
             (Feedback (graded ev st = 1) (take 80 qt) ct
                (map_option (\<lambda>(i, r). o_text r) (fetchone (select_where
                   (\<lambda>i r. o_question_id r = ev_question ev \<and> o_option_index r = ev_option ev)
                   (options st))))) # rest"
proof -
  let ?r = "\<lparr>r_chat_id = ev_chat ev, r_user_id = ev_user ev, r_question_id = ev_question ev,
                 r_option_index = ev_option ev, r_is_correct = graded ev st, r_answered_at = now\<rparr>"
  have ins: "insert_response ?r st = Inr (st\<lparr>responses := snd (insert_row ?r (responses st))\<rparr>)"
    by (rule insert_response_fresh) (use assms in \<open>simp add: has_response_def\<close>)
  define st1 where "st1 = st\<lparr>responses := snd (insert_row ?r (responses st))\<rparr>"
  define ct where "ct = map_option (\<lambda>(i, r). o_text r)
                    (fetchone (filter (\<lambda>(i, r). o_is_correct r = 1)
                       (sort_key (\<lambda>(i, r). o_option_index r)
                          (select_where (\<lambda>i r. o_question_id r = ev_question ev) (options st)))))"
  define yt where "yt = map_option (\<lambda>(i, r). o_text r) (fetchone (select_where
                   (\<lambda>i r. o_question_id r = ev_question ev \<and> o_option_index r = ev_option ev)
                   (options st)))"
  define st2 where "st2 = emit (CbAnswer (ev_chat ev) (ev_user ev)
                                (Feedback (graded ev st = 1) (take 80 qt) ct yt)) st1"
  have ra: "record_answer cfg now ev z qt st
              = check_finish now (ev_chat ev) (ev_user ev) z (celebrate cfg (ev_chat ev) (graded ev st = 1) st2)"
    unfolding record_answer_def graded_def[symmetric] Let_def ins st2_def st1_def ct_def yt_def by simp
  have j2: "journal st2 = journal st @ [CbAnswer (ev_chat ev) (ev_user ev)
                                (Feedback (graded ev st = 1) (take 80 qt) ct yt)]"
    by (simp add: st2_def st1_def)
  obtain es where es: "journal (celebrate cfg (ev_chat ev) (graded ev st = 1) st2) = journal st2 @ es"
    using celebrate_journal by blast
  obtain fs where fs: "journal (check_finish now (ev_chat ev) (ev_user ev) z
                          (celebrate cfg (ev_chat ev) (graded ev st = 1) st2))
                       = journal (celebrate cfg (ev_chat ev) (graded ev st = 1) st2) @ fs"
    using check_finish_journal by blast
  have "journal (record_answer cfg now ev z qt st) = journal st @
           CbAnswer (ev_chat ev) (ev_user ev) (Feedback (graded ev st = 1) (take 80 qt) ct yt) # (es @ fs)"
    by (simp add: ra fs es j2)
  then show ?thesis unfolding yt_def by blast
qed


lemma on_answer_question_missing:
  assumes "ev_target ev = 0 \<or> ev_user ev = ev_target ev"
    and "select_where (\<lambda>i r. i = ev_question ev) (questions st) = []"
  shows "on_answer cfg f now ev st = emit (CbAnswer (ev_chat ev) (ev_user ev) QuestionMissing) st"
proof (cases "ev_target ev = 0")
  case True
  then show ?thesis unfolding on_answer_def Let_def using assms(2) by simp
next
  case False
  with assms(1) have "ev_user ev = ev_target ev" by simp
  then show ?thesis unfolding on_answer_def Let_def using assms(2) by simp
qed

lemma on_answer_question_gone:
  assumes "select_where (\<lambda>i r. i = ev_question ev) (questions st) = []"
  shows "on_answer cfg f now ev st =
           (if ev_target ev \<noteq> 0 \<and> ev_user ev \<noteq> ev_target ev
            then emit (CbAnswer (ev_chat ev) (ev_user ev) WrongTarget) st
            else emit (CbAnswer (ev_chat ev) (ev_user ev) QuestionMissing) st)"
proof -
  define wrong where "wrong = (ev_target ev \<noteq> 0 \<and> ev_user ev \<noteq> ev_target ev)"
  show ?thesis
    unfolding on_answer_def Let_def wrong_def[symmetric] using assms by (cases wrong) simp_all
qed

section \<open>An answer that names no option\<close>

text \<open>
  Claim C7, as amended. An answer event whose question id resolves to no question changes
  nothing and is answered with one alert: the wrong-participant alert when its control
  names another user, the not-found alert otherwise. An event whose question exists but
  whose option index resolves to no option row is not aborted: when it passes the earlier
  checks and the question has not been answered, a response with \<^verbatim>\<open>is_correct = 0\<close> is
  inserted and the event is acknowledged as an incorrect answer.
\<close>

theorem on_answer_missing_option:
  "(select_where (\<lambda>i r. i = ev_question ev) (questions st) = [] \<longrightarrow>
      on_answer cfg f now ev st =
        (if ev_target ev \<noteq> 0 \<and> ev_user ev \<noteq> ev_target ev
         then emit (CbAnswer (ev_chat ev) (ev_user ev) WrongTarget) st
         else emit (CbAnswer (ev_chat ev) (ev_user ev) QuestionMissing) st)
      \<and> store_of (on_answer cfg f now ev st) = store_of st)
   \<and> (passes_gates f now ev st \<and> \<not> has_response (ev_chat ev) (ev_user ev) (ev_question ev) st
      \<and> select_where (\<lambda>i r. o_question_id r = ev_question ev \<and> o_option_index r = ev_option ev)
            (options st) = [] \<longrightarrow>
      rows (responses (on_answer cfg f now ev st)) = rows (responses st) @
        [(next_id (responses st),
          \<lparr>r_chat_id = ev_chat ev, r_user_id = ev_user ev, r_question_id = ev_question ev,
           r_option_index = ev_option ev, r_is_correct = 0, r_answered_at = now\<rparr>)]
      \<and> (\<exists>qt ct yt rest. journal (on_answer cfg f now ev st) = journal st @
            CbAnswer (ev_chat ev) (ev_user ev) (Feedback False qt ct yt) # rest))"
proof (intro conjI impI)
  assume m: "select_where (\<lambda>i r. i = ev_question ev) (questions st) = []"
  show o: "on_answer cfg f now ev st =
        (if ev_target ev \<noteq> 0 \<and> ev_user ev \<noteq> ev_target ev
         then emit (CbAnswer (ev_chat ev) (ev_user ev) WrongTarget) st
         else emit (CbAnswer (ev_chat ev) (ev_user ev) QuestionMissing) st)"
    using m by (rule on_answer_question_gone)
  show "store_of (on_answer cfg f now ev st) = store_of st"
    by (simp only: o if_distrib[of store_of] store_of_emit if_cancel)
next
  assume a: "passes_gates f now ev st \<and> \<not> has_response (ev_chat ev) (ev_user ev) (ev_question ev) st
      \<and> select_where (\<lambda>i r. o_question_id r = ev_question ev \<and> o_option_index r = ev_option ev)
            (options st) = []"
  then have g: "graded ev st = 0" by (simp add: graded_def)
  have "responses (on_answer cfg f now ev st) = snd (insert_row (response_of now ev st) (responses st))"
    using a on_answer_responses[of cfg f now ev st] by (simp only: simp_thms if_True)
  then show "rows (responses (on_answer cfg f now ev st)) = rows (responses st) @
        [(next_id (responses st),
          \<lparr>r_chat_id = ev_chat ev, r_user_id = ev_user ev, r_question_id = ev_question ev,
           r_option_index = ev_option ev, r_is_correct = 0, r_answered_at = now\<rparr>)]"
    by (simp add: response_of_def g)
  from a on_answer_gated[of f now ev st cfg] obtain qid and qrow :: question_row where
    o: "on_answer cfg f now ev st = record_answer cfg now ev (q_quiz_id qrow) (q_text qrow) st"
    by auto
  from record_answer_journal[of ev st cfg now "q_quiz_id qrow" "q_text qrow"] a g
  show "\<exists>qt ct yt rest. journal (on_answer cfg f now ev st) = journal st @
            CbAnswer (ev_chat ev) (ev_user ev) (Feedback False qt ct yt) # rest"
    by (simp add: o) blast
qed

lemma cb_start_quiz_unregistered:
  assumes "quiz_expired f now c z st = Inr e" "e \<noteq> Some True" "\<not> has_name c u z st"
  shows "cb_start_quiz f now c u z st =
           emit (NamePrompt c u) (emit (CbAnswer c u Blank) (set_pending (c, u, z) st))"
  using assms unfolding cb_start_quiz_def by simp

lemma cb_start_quiz_registered:
  assumes "quiz_expired f now c z st = Inr e" "e \<noteq> Some True" "has_name c u z st"
  shows "cb_start_quiz f now c u z st = emit (CbAnswer c u GoodLuck) st"
  using assms unfolding cb_start_quiz_def by simp

lemma set_pending_member: "k \<in> set (pending_names (set_pending k st))"
  by (simp add: set_pending_def)

section \<open>The begin event\<close>

text \<open>
  Claim C6, as amended. On a session that is not expired, a begin event of a user who has
  no participant row for the quiz in the channel marks the channel, user and quiz as
  pending-name and prompts for the name, leaving the tables alone; for a user who is
  already registered it only acknowledges, and the pending names stay as they were.
\<close>

theorem cb_start_quiz_not_expired:
  "quiz_expired f now c z st = Inr e \<and> e \<noteq> Some True \<longrightarrow>
     (\<not> has_name c u z st \<longrightarrow>
        (c, u, z) \<in> set (pending_names (cb_start_quiz f now c u z st))
        \<and> journal (cb_start_quiz f now c u z st) = journal st @ [CbAnswer c u Blank, NamePrompt c u]
        \<and> store_of (cb_start_quiz f now c u z st) = store_of st)
     \<and> (has_name c u z st \<longrightarrow>
        cb_start_quiz f now c u z st = emit (CbAnswer c u GoodLuck) st
        \<and> pending_names (cb_start_quiz f now c u z st) = pending_names st)"
proof (intro impI conjI)
  assume a: "quiz_expired f now c z st = Inr e \<and> e \<noteq> Some True"
  {
    assume n: "\<not> has_name c u z st"
    have o: "cb_start_quiz f now c u z st =
           emit (NamePrompt c u) (emit (CbAnswer c u Blank) (set_pending (c, u, z) st))"
      using a n cb_start_quiz_unregistered by blast
    show "(c, u, z) \<in> set (pending_names (cb_start_quiz f now c u z st))"
      by (simp add: o set_pending_member)
    show "journal (cb_start_quiz f now c u z st) = journal st @ [CbAnswer c u Blank, NamePrompt c u]"
      by (simp add: o)
    show "store_of (cb_start_quiz f now c u z st) = store_of st"
      by (simp only: o store_of_emit store_of_set_pending)
  }
  {
    assume h: "has_name c u z st"
    show o: "cb_start_quiz f now c u z st = emit (CbAnswer c u GoodLuck) st"
      using a h cb_start_quiz_registered by blast
    show "pending_names (cb_start_quiz f now c u z st) = pending_names st"
      by (simp only: o emit_fields)
  }
qed

lemma demo_gates_fresh:
  "passes_gates demo_parse (59 * minute) (demo_answer 7 1 5) demo_state"
  by (simp add: demo_defs eval_defs)

lemma demo_no_response: "\<not> has_response 100 7 1 demo_state"
  by (simp add: demo_defs eval_defs)

lemma demo_no_option:
  "select_where (\<lambda>i r. o_question_id r = 1 \<and> o_option_index r = 5) (options demo_state) = []"
  by (simp add: demo_defs eval_defs)

lemma demo_next_response: "next_id (responses demo_state) = 1" "rows (responses demo_state) = []"
  by (simp_all add: demo_defs next_id_def)

text \<open>
  The claim as first stated fails: question 1 of the concrete store has no option 5, yet
  the answer is stored, as an incorrect one.
\<close>

theorem on_answer_missing_option_counterexample:
  "select_where (\<lambda>i r. o_question_id r = 1 \<and> o_option_index r = 5) (options demo_state) = []
   \<and> rows (responses demo_state) = []
   \<and> rows (responses (on_answer demo_cfg demo_parse (59 * minute) (demo_answer 7 1 5) demo_state))
       = [(1, \<lparr>r_chat_id = 100, r_user_id = 7, r_question_id = 1, r_option_index = 5,
               r_is_correct = 0, r_answered_at = 59 * minute\<rparr>)]"
proof -
  have g: "graded (demo_answer 7 1 5) demo_state = 0"
    using demo_no_option by (simp add: graded_def demo_answer_fields)
  have "responses (on_answer demo_cfg demo_parse (59 * minute) (demo_answer 7 1 5) demo_state)
          = snd (insert_row (response_of (59 * minute) (demo_answer 7 1 5) demo_state) (responses demo_state))"
    using on_answer_responses[of demo_cfg demo_parse "59 * minute" "demo_answer 7 1 5" demo_state]
      demo_gates_fresh demo_no_response
    by (simp only: demo_answer_fields simp_thms if_True)
  then have "rows (responses (on_answer demo_cfg demo_parse (59 * minute) (demo_answer 7 1 5) demo_state))
       = [(1, \<lparr>r_chat_id = 100, r_user_id = 7, r_question_id = 1, r_option_index = 5,
               r_is_correct = 0, r_answered_at = 59 * minute\<rparr>)]"
    by (simp add: response_of_def g demo_answer_fields demo_next_response)
  with demo_no_option demo_next_response(2) show ?thesis by blast
qed

text \<open>The same event, through the amended statement.\<close>

theorem on_answer_missing_option_witness:
  "passes_gates demo_parse (59 * minute) (demo_answer 7 1 5) demo_state
   \<and> \<not> has_response 100 7 1 demo_state
   \<and> select_where (\<lambda>i r. o_question_id r = 1 \<and> o_option_index r = 5) (options demo_state) = []
   \<and> rows (responses (on_answer demo_cfg demo_parse (59 * minute) (demo_answer 7 1 5) demo_state))
       = rows (responses demo_state) @
         [(next_id (responses demo_state),
           \<lparr>r_chat_id = 100, r_user_id = 7, r_question_id = 1, r_option_index = 5,
            r_is_correct = 0, r_answered_at = 59 * minute\<rparr>)]"
proof -
  note T = on_answer_missing_option[of "demo_answer 7 1 5" demo_state demo_cfg demo_parse "59 * minute",
             unfolded demo_answer_fields, THEN conjunct2]
  from T demo_gates_fresh demo_no_response demo_no_option
  have "rows (responses (on_answer demo_cfg demo_parse (59 * minute) (demo_answer 7 1 5) demo_state))
       = rows (responses demo_state) @
         [(next_id (responses demo_state),
           \<lparr>r_chat_id = 100, r_user_id = 7, r_question_id = 1, r_option_index = 5,
            r_is_correct = 0, r_answered_at = 59 * minute\<rparr>)]"
    by blast
  with demo_gates_fresh demo_no_response demo_no_option show ?thesis by blast
qed

lemma demo_not_expired_early:
  "quiz_expired demo_parse (59 * minute) 100 1 demo_state = Inr (Some False)"
  by (simp add: demo_defs eval_defs)

lemma demo_registered: "has_name 100 7 1 demo_state" "\<not> has_name 100 8 1 demo_state"
  by (simp_all add: demo_defs eval_defs)

lemma demo_blank: "pending_names demo_state = []" "journal demo_state = []"
  by (simp_all add: demo_defs)

text \<open>
  The claim as first stated fails: user 7 is registered, and the begin event neither marks
  a pending name nor prompts.
\<close>

theorem cb_start_quiz_counterexample:
  "quiz_expired demo_parse (59 * minute) 100 1 demo_state = Inr (Some False)
   \<and> pending_names (cb_start_quiz demo_parse (59 * minute) 100 7 1 demo_state) = []
   \<and> journal (cb_start_quiz demo_parse (59 * minute) 100 7 1 demo_state) = [CbAnswer 100 7 GoodLuck]"
proof -
  have o: "cb_start_quiz demo_parse (59 * minute) 100 7 1 demo_state = emit (CbAnswer 100 7 GoodLuck) demo_state"
    by (rule cb_start_quiz_registered[OF demo_not_expired_early _ demo_registered(1)]) simp
  show ?thesis using demo_not_expired_early by (simp add: o demo_blank)
qed

text \<open>User 8 is not registered.\<close>

theorem cb_start_quiz_not_expired_witness:
  "quiz_expired demo_parse (59 * minute) 100 1 demo_state = Inr (Some False)
   \<and> \<not> has_name 100 8 1 demo_state
   \<and> (100, 8, 1) \<in> set (pending_names (cb_start_quiz demo_parse (59 * minute) 100 8 1 demo_state))
   \<and> journal (cb_start_quiz demo_parse (59 * minute) 100 8 1 demo_state)
       = [CbAnswer 100 8 Blank, NamePrompt 100 8]"
proof -
  note T = cb_start_quiz_not_expired[of demo_parse "59 * minute" 100 1 demo_state "Some False" 8]
  have ne: "Some False \<noteq> Some True" by simp
  from T demo_not_expired_early ne demo_registered(2)
  have "(100, 8, 1) \<in> set (pending_names (cb_start_quiz demo_parse (59 * minute) 100 8 1 demo_state))
        \<and> journal (cb_start_quiz demo_parse (59 * minute) 100 8 1 demo_state)
            = journal demo_state @ [CbAnswer 100 8 Blank, NamePrompt 100 8]"
    by blast
  then show ?thesis using demo_not_expired_early demo_registered(2) by (simp add: demo_blank)
qed

section \<open>Publishing an invalid quiz\<close>

lemma migrate_row_fields [simp]:
  "quizzes (migrate_row qr st) = quizzes st" "questions (migrate_row qr st) = questions st"
  "options (migrate_row qr st) = options st" "responses (migrate_row qr st) = responses st"
  "user_progress (migrate_row qr st) = user_progress st" "sent_msgs (migrate_row qr st) = sent_msgs st"
  "participant_names (migrate_row qr st) = participant_names st"
  "media_bundles (migrate_row qr st) = media_bundles st"
  "media_bundle_attachments (migrate_row qr st) = media_bundle_attachments st"
  "pending_names (migrate_row qr st) = pending_names st" "calls (migrate_row qr st) = calls st"
  "journal (migrate_row qr st) = journal st"
  by (simp_all add: migrate_row_def Let_def)

lemma fold_migrate_row_fields [simp]:
  "quizzes (fold migrate_row qs st) = quizzes st" "questions (fold migrate_row qs st) = questions st"
  "options (fold migrate_row qs st) = options st" "responses (fold migrate_row qs st) = responses st"
  "user_progress (fold migrate_row qs st) = user_progress st"
  "sent_msgs (fold migrate_row qs st) = sent_msgs st"
  "participant_names (fold migrate_row qs st) = participant_names st"
  "media_bundles (fold migrate_row qs st) = media_bundles st"
  "media_bundle_attachments (fold migrate_row qs st) = media_bundle_attachments st"
  "pending_names (fold migrate_row qs st) = pending_names st" "calls (fold migrate_row qs st) = calls st"
  "journal (fold migrate_row qs st) = journal st"
  by (induction qs arbitrary: st; simp)+

lemma migrate_legacy_media_fields [simp]:
  "quizzes (migrate_legacy_media st) = quizzes st" "questions (migrate_legacy_media st) = questions st"
  "options (migrate_legacy_media st) = options st" "responses (migrate_legacy_media st) = responses st"
  "user_progress (migrate_legacy_media st) = user_progress st"
  "sent_msgs (migrate_legacy_media st) = sent_msgs st"
  "participant_names (migrate_legacy_media st) = participant_names st"
  "media_bundles (migrate_legacy_media st) = media_bundles st"
  "media_bundle_attachments (migrate_legacy_media st) = media_bundle_attachments st"
  "pending_names (migrate_legacy_media st) = pending_names st"
  "calls (migrate_legacy_media st) = calls st"
  "journal (migrate_legacy_media st) = journal st"
  by (simp_all add: migrate_legacy_media_def)


lemma order_by_id_Nil [simp]: "order_by_id xs = [] \<longleftrightarrow> xs = []"
  unfolding order_by_id_def by (metis length_0_conv length_sort)

lemma do_publish_invalid:
  assumes "fetchone (select_where (\<lambda>i r. i = quiz_id \<and> qz_is_archived r = 0) (quizzes st)) = None
           \<or> select_where (\<lambda>i r. q_quiz_id r = quiz_id) (questions st) = []"
  shows "do_publish tr chat_id quiz_id expires_at st = emit (InvalidQuizReport chat_id) (migrate_legacy_media st)"
proof (cases "fetchone (select_where (\<lambda>i r. i = quiz_id \<and> qz_is_archived r = 0) (quizzes st))")
  case None
  then show ?thesis unfolding do_publish_def Let_def by simp
next
  case (Some x)
  obtain i qz where x: "x = (i, qz)" by (cases x)
  from Some assms have "select_where (\<lambda>i r. q_quiz_id r = quiz_id) (questions st) = []" by simp
  then show ?thesis unfolding do_publish_def Let_def using Some x by simp
qed

lemma migrate_row_done:
  assumes "(q_photo (snd qr) \<noteq> None \<and> q_photo (snd qr) \<noteq> Some [])
             \<or> (q_audio (snd qr) \<noteq> None \<and> q_audio (snd qr) \<noteq> Some [])
           \<longrightarrow> select_where (\<lambda>j a. a_owner a = fst qr) (question_attachments st) \<noteq> []"
  shows "migrate_row qr st = st"
  using assms unfolding migrate_row_def Let_def by auto

lemma fold_migrate_row_done:
  assumes "\<forall>qr \<in> set qs.
             (q_photo (snd qr) \<noteq> None \<and> q_photo (snd qr) \<noteq> Some [])
               \<or> (q_audio (snd qr) \<noteq> None \<and> q_audio (snd qr) \<noteq> Some [])
             \<longrightarrow> select_where (\<lambda>j a. a_owner a = fst qr) (question_attachments st) \<noteq> []"
  shows "fold migrate_row qs st = st"
  using assms
proof (induction qs)
  case Nil
  then show ?case by simp
next
  case (Cons qr qs)
  then have "migrate_row qr st = st" by (intro migrate_row_done) simp
  then show ?case using Cons by simp
qed

lemma migrate_legacy_media_done:
  assumes "legacy_migrated st"
  shows "migrate_legacy_media st = st"
  unfolding migrate_legacy_media_def
proof (rule fold_migrate_row_done, rule ballI)
  fix qr
  assume "qr \<in> set (select_where (\<lambda>i r. q_photo r \<noteq> None \<or> q_audio r \<noteq> None) (questions st))"
  then have "(fst qr, snd qr) \<in> set (rows (questions st))"
    by (simp add: select_where_def)
  with assms show "(q_photo (snd qr) \<noteq> None \<and> q_photo (snd qr) \<noteq> Some [])
               \<or> (q_audio (snd qr) \<noteq> None \<and> q_audio (snd qr) \<noteq> Some [])
             \<longrightarrow> select_where (\<lambda>j a. a_owner a = fst qr) (question_attachments st) \<noteq> []"
    unfolding legacy_migrated_def by fast
qed

text \<open>
  Claim C8. In a store whose legacy media have been migrated, as the program leaves it
  from its start on, a publish of a quiz that is missing, archived or without questions is
  answered with the failure report and has no other effect: no content unit is broadcast,
  the transport is not called, no publish record is written and no table changes.
\<close>

theorem do_publish_rejects_invalid_quiz:
  "legacy_migrated st
   \<and> (fetchone (select_where (\<lambda>i r. i = quiz_id \<and> qz_is_archived r = 0) (quizzes st)) = None
      \<or> select_where (\<lambda>i r. q_quiz_id r = quiz_id) (questions st) = []) \<longrightarrow>
   do_publish tr chat_id quiz_id expires_at st = emit (InvalidQuizReport chat_id) st
   \<and> store_of (do_publish tr chat_id quiz_id expires_at st) = store_of st
   \<and> journal (do_publish tr chat_id quiz_id expires_at st) = journal st @ [InvalidQuizReport chat_id]
   \<and> sent_msgs (do_publish tr chat_id quiz_id expires_at st) = sent_msgs st
   \<and> calls (do_publish tr chat_id quiz_id expires_at st) = calls st"
proof
  assume a: "legacy_migrated st
   \<and> (fetchone (select_where (\<lambda>i r. i = quiz_id \<and> qz_is_archived r = 0) (quizzes st)) = None
      \<or> select_where (\<lambda>i r. q_quiz_id r = quiz_id) (questions st) = [])"
  then have "do_publish tr chat_id quiz_id expires_at st
               = emit (InvalidQuizReport chat_id) (migrate_legacy_media st)"
    by (intro do_publish_invalid) simp
  then have o: "do_publish tr chat_id quiz_id expires_at st = emit (InvalidQuizReport chat_id) st"
    using a by (simp only: migrate_legacy_media_done)
  show "do_publish tr chat_id quiz_id expires_at st = emit (InvalidQuizReport chat_id) st
   \<and> store_of (do_publish tr chat_id quiz_id expires_at st) = store_of st
   \<and> journal (do_publish tr chat_id quiz_id expires_at st) = journal st @ [InvalidQuizReport chat_id]
   \<and> sent_msgs (do_publish tr chat_id quiz_id expires_at st) = sent_msgs st
   \<and> calls (do_publish tr chat_id quiz_id expires_at st) = calls st"
    unfolding o by (intro conjI) (simp_all only: store_of_emit emit_fields)
qed

lemma demo_quiz_99_missing:
  "fetchone (select_where (\<lambda>i r. i = 99 \<and> qz_is_archived r = 0) (quizzes demo_migrated)) = None"
  by (simp add: demo_defs demo_migrated_def eval_defs)

lemma demo_legacy_migrated: "legacy_migrated demo_migrated"
  by (simp add: legacy_migrated_def demo_defs demo_migrated_def eval_defs)

text \<open>The missing quiz 99 on the store that carries migrated legacy media.\<close>

theorem do_publish_rejects_invalid_quiz_witness:
  "legacy_migrated demo_migrated
   \<and> fetchone (select_where (\<lambda>i r. i = 99 \<and> qz_is_archived r = 0) (quizzes demo_migrated)) = None
   \<and> do_publish demo_transport 100 99 (Some ''T'') demo_migrated
       = emit (InvalidQuizReport 100) demo_migrated
   \<and> store_of (do_publish demo_transport 100 99 (Some ''T'') demo_migrated) = store_of demo_migrated
   \<and> sent_msgs (do_publish demo_transport 100 99 (Some ''T'') demo_migrated) = sent_msgs demo_migrated"
proof -
  note T = do_publish_rejects_invalid_quiz[of demo_migrated 99 demo_transport 100 "Some ''T''"]
  from T demo_legacy_migrated demo_quiz_99_missing
  have "do_publish demo_transport 100 99 (Some ''T'') demo_migrated
          = emit (InvalidQuizReport 100) demo_migrated
        \<and> store_of (do_publish demo_transport 100 99 (Some ''T'') demo_migrated) = store_of demo_migrated
        \<and> sent_msgs (do_publish demo_transport 100 99 (Some ''T'') demo_migrated) = sent_msgs demo_migrated"
    by blast
  with demo_legacy_migrated demo_quiz_99_missing show ?thesis by blast
qed

section \<open>A publish pass\<close>

lemma units_append [simp]: "units (xs @ ys) = units xs @ units ys"
  by (simp add: units_def)

lemma units_Nil [simp]: "units [] = []"
  by (simp add: units_def)

lemma units_Cons [simp]: "units (e # es) = unit_of e @ units es"
  by (simp add: units_def)

lemma same_content_refl [simp]: "same_content st st"
  by (simp add: same_content_def)







































end
